theory Spec2Isabelle
  imports Complex_Main "HOL-Library.Word" "HOL-Library.AList"
begin

unbundle bit_operations_syntax

section \<open>The platform (SDL) as the program sees it\<close>

text \<open>
  Both input managers of \<^verbatim>\<open>sdl_steam_input.cpp\<close> poll SDL. SDL is an external library, so
  its answers are the parameters of the model: one value of the record \<open>SDL\<close> holds what
  every SDL call of the program returns at one moment (between two event pumps).
  A \<open>SDL_GameController*\<close> is a \<open>handle option\<close>, \<open>None\<close> being the null pointer.
  C \<open>float\<close> arithmetic is modelled by exact arithmetic on \<open>real\<close>.

  The fields, by the SDL call they answer:
  \<^item> \<open>keyboard_state\<close>: the array \<open>SDL_GetKeyboardState\<close> points to, by scancode;
  \<^item> \<open>key_from_scancode\<close>, \<open>scancode_from_key\<close>: \<open>SDL_GetKeyFromScancode\<close> and
    \<open>SDL_GetScancodeFromKey\<close>;
  \<^item> \<open>mouse_state\<close>, \<open>mouse_x\<close>, \<open>mouse_y\<close>: the result and the two outputs of
    \<open>SDL_GetMouseState\<close>;
  \<^item> \<open>was_init_gamecontroller\<close>: \<open>SDL_WasInit(SDL_INIT_GAMECONTROLLER) != 0\<close>;
    \<open>init_subsystem_result\<close>: the result of \<open>SDL_InitSubSystem\<close>; \<open>sdl_init_result\<close>: the
    result of \<open>SDL_Init\<close>; \<open>getenv_SteamDeck\<close>: \<open>SDL_getenv("SteamDeck")\<close>;
  \<^item> \<open>num_joysticks\<close>, \<open>is_game_controller\<close>, \<open>game_controller_open\<close>: \<open>SDL_NumJoysticks\<close>,
    \<open>SDL_IsGameController\<close> and \<open>SDL_GameControllerOpen\<close>, by device index;
  \<^item> \<open>game_controller_attached\<close>, \<open>game_controller_button\<close>, \<open>game_controller_axis\<close>:
    \<open>SDL_GameControllerGetAttached\<close>, \<open>SDL_GameControllerGetButton\<close> and
    \<open>SDL_GameControllerGetAxis\<close>, by handle.
\<close>

type_synonym handle = nat
type_synonym SDL_Keycode = "32 word"
type_synonym SDL_Scancode = nat

record SDL =
  keyboard_state :: "SDL_Scancode \<Rightarrow> 8 word"
  key_from_scancode :: "SDL_Scancode \<Rightarrow> SDL_Keycode"
  scancode_from_key :: "SDL_Keycode \<Rightarrow> SDL_Scancode"
  mouse_state :: "32 word"
  mouse_x :: int
  mouse_y :: int
  was_init_gamecontroller :: bool
  init_subsystem_result :: int
  num_joysticks :: int
  is_game_controller :: "int \<Rightarrow> bool"
  game_controller_open :: "int \<Rightarrow> handle option"
  game_controller_attached :: "handle \<Rightarrow> bool"
  game_controller_button :: "handle \<Rightarrow> nat \<Rightarrow> 8 word"
  game_controller_axis :: "handle \<Rightarrow> nat \<Rightarrow> 16 word"
  sdl_init_result :: int
  getenv_SteamDeck :: "string option"

text \<open>Constants of the SDL headers (SDL 2.0.14 and later, which has MISC1 and the paddles).\<close>

definition SDL_NUM_SCANCODES :: nat where
  "SDL_NUM_SCANCODES = 512"

definition SDL_CONTROLLER_BUTTON_MAX :: nat where
  "SDL_CONTROLLER_BUTTON_MAX = 21"

definition SDL_CONTROLLER_AXIS_MAX :: nat where
  "SDL_CONTROLLER_AXIS_MAX = 6"

definition SDLK_UNKNOWN :: SDL_Keycode where
  "SDLK_UNKNOWN = 0"

text \<open>The macro \<open>SDL_BUTTON(X) = 1 << (X - 1)\<close>, for the button numbers 1 to 32.\<close>

definition SDL_BUTTON :: "int \<Rightarrow> 32 word" where
  "SDL_BUTTON b = push_bit (nat (b - 1)) 1"

text \<open>
  A \<open>const Uint8*\<close> of this program is null or the pointer \<open>SDL_GetKeyboardState\<close> returns,
  which points into SDL's own key array: what is read through it is the array as it is
  at the moment of the read, not as it was when the pointer was taken.
\<close>

datatype keys_ptr = nullptr | sdl_keys

definition SDL_GetKeyboardState :: "SDL \<Rightarrow> keys_ptr" where
  "SDL_GetKeyboardState p = sdl_keys"

section \<open>The capability-delegation design: the device classes\<close>

subsection \<open>KeyboardInput\<close>

record KeyboardInput =
  keyboardState :: keys_ptr
  previousKeyboardState :: "SDL_Scancode \<Rightarrow> 8 word"

text \<open>The constructor: a null pointer and a zeroed previous array.\<close>

definition KeyboardInput_new :: KeyboardInput where
  "KeyboardInput_new = \<lparr>keyboardState = nullptr, previousKeyboardState = (\<lambda>i. 0)\<rparr>"

text \<open>\<open>memcpy(dst, src, n)\<close> on arrays indexed from 0.\<close>

definition memcpy :: "(nat \<Rightarrow> 'a) \<Rightarrow> (nat \<Rightarrow> 'a) \<Rightarrow> nat \<Rightarrow> (nat \<Rightarrow> 'a)" where
  "memcpy dst src n = (\<lambda>i. if i < n then src i else dst i)"

text \<open>
  \<open>KeyboardInput::update\<close>: the pointer is taken first, and the previous array is then
  filled from what the pointer points to, which is SDL's array of this frame.
\<close>

definition KeyboardInput_update :: "SDL \<Rightarrow> KeyboardInput \<Rightarrow> KeyboardInput" where
  "KeyboardInput_update p k =
     (let k1 = k\<lparr>keyboardState := SDL_GetKeyboardState p\<rparr>
      in if keyboardState k1 \<noteq> nullptr
         then k1\<lparr>previousKeyboardState :=
                   memcpy (previousKeyboardState k1) (keyboard_state p) SDL_NUM_SCANCODES\<rparr>
         else k1)"

text \<open>
  The two key queries read the current state through the pointer: their first argument is
  the platform at the moment of the query. Between an \<open>update\<close> and the queries of the same
  frame no events are pumped, so it is the platform \<open>update\<close> was given.
\<close>

definition KeyboardInput_isAvailable :: "KeyboardInput \<Rightarrow> bool" where
  "KeyboardInput_isAvailable k = (keyboardState k \<noteq> nullptr)"

definition KeyboardInput_isKeyPressed :: "SDL \<Rightarrow> KeyboardInput \<Rightarrow> SDL_Scancode \<Rightarrow> bool" where
  "KeyboardInput_isKeyPressed p k key =
     (if \<not> KeyboardInput_isAvailable k then False else keyboard_state p key = 1)"

definition KeyboardInput_isKeyJustPressed :: "SDL \<Rightarrow> KeyboardInput \<Rightarrow> SDL_Scancode \<Rightarrow> bool" where
  "KeyboardInput_isKeyJustPressed p k key =
     (if \<not> KeyboardInput_isAvailable k then False
      else keyboard_state p key = 1 \<and> previousKeyboardState k key = 0)"

subsection \<open>MouseInput\<close>

record MouseInput =
  mouseX :: int
  mouseY :: int
  mouseState :: "32 word"
  previousMouseState :: "32 word"

definition MouseInput_new :: MouseInput where
  "MouseInput_new = \<lparr>mouseX = 0, mouseY = 0, mouseState = 0, previousMouseState = 0\<rparr>"

definition MouseInput_update :: "SDL \<Rightarrow> MouseInput \<Rightarrow> MouseInput" where
  "MouseInput_update p m =
     (let m1 = m\<lparr>previousMouseState := mouseState m\<rparr>
      in m1\<lparr>mouseState := mouse_state p, mouseX := mouse_x p, mouseY := mouse_y p\<rparr>)"

definition MouseInput_isButtonPressed :: "MouseInput \<Rightarrow> int \<Rightarrow> bool" where
  "MouseInput_isButtonPressed m button = (mouseState m AND SDL_BUTTON button \<noteq> 0)"

definition MouseInput_isButtonJustPressed :: "MouseInput \<Rightarrow> int \<Rightarrow> bool" where
  "MouseInput_isButtonJustPressed m button =
     (mouseState m AND SDL_BUTTON button \<noteq> 0 \<and> previousMouseState m AND SDL_BUTTON button = 0)"

subsection \<open>GamepadInput\<close>

record GamepadInput =
  controller :: "handle option"
  controllerWasConnected :: bool
  previousButtonStates :: "nat \<Rightarrow> bool"
  currentButtonStates :: "nat \<Rightarrow> bool"
  axisValues :: "nat \<Rightarrow> 16 word"

definition GamepadInput_new :: GamepadInput where
  "GamepadInput_new = \<lparr>controller = None, controllerWasConnected = False,
     previousButtonStates = (\<lambda>i. False), currentButtonStates = (\<lambda>i. False),
     axisValues = (\<lambda>i. 0)\<rparr>"

text \<open>
  The scan loop \<open>for (i = 0; i < SDL_NumJoysticks(); ++i)\<close>: the first device index that is
  a game controller and that \<open>SDL_GameControllerOpen\<close> opens, with its handle.
\<close>

fun open_first_controller :: "SDL \<Rightarrow> int list \<Rightarrow> (handle \<times> int) option" where
  "open_first_controller p [] = None"
| "open_first_controller p (i # is) =
     (if is_game_controller p i
      then (case game_controller_open p i of
              Some h \<Rightarrow> Some (h, i)
            | None \<Rightarrow> open_first_controller p is)
      else open_first_controller p is)"

definition joystick_indices :: "SDL \<Rightarrow> int list" where
  "joystick_indices p = map int [0 ..< nat (num_joysticks p)]"

definition GamepadInput_update :: "SDL \<Rightarrow> GamepadInput \<Rightarrow> GamepadInput" where
  "GamepadInput_update p g =
     (let g1 = g\<lparr>previousButtonStates :=
                   memcpy (previousButtonStates g) (currentButtonStates g) SDL_CONTROLLER_BUTTON_MAX\<rparr>;
          g2 = (if controller g1 = None
                then g1\<lparr>controller := map_option fst (open_first_controller p (joystick_indices p))\<rparr>
                else g1)
      in case controller g2 of
           None \<Rightarrow> g2
         | Some h \<Rightarrow>
             if \<not> game_controller_attached p h
             then g2\<lparr>controller := None, controllerWasConnected := False\<rparr>
             else g2\<lparr>controllerWasConnected := True,
                     currentButtonStates :=
                       (\<lambda>i. if i < SDL_CONTROLLER_BUTTON_MAX then game_controller_button p h i = 1
                            else currentButtonStates g2 i),
                     axisValues :=
                       (\<lambda>i. if i < SDL_CONTROLLER_AXIS_MAX then game_controller_axis p h i
                            else axisValues g2 i)\<rparr>)"

text \<open>
  The calls of \<open>SDL_GameControllerClose\<close>, which act on SDL and not on the object: the
  handles \<open>GamepadInput::update\<close> closes (the handle it holds after the scan, when that
  handle is not attached) and the handles the destructor closes (the handle the object
  holds).
\<close>

definition GamepadInput_update_closes :: "SDL \<Rightarrow> GamepadInput \<Rightarrow> handle list" where
  "GamepadInput_update_closes p g =
     (let c = (if controller g = None
               then map_option fst (open_first_controller p (joystick_indices p))
               else controller g)
      in case c of
           None \<Rightarrow> []
         | Some h \<Rightarrow> if \<not> game_controller_attached p h then [h] else [])"

definition GamepadInput_destroy_closes :: "GamepadInput \<Rightarrow> handle list" where
  "GamepadInput_destroy_closes g = (case controller g of None \<Rightarrow> [] | Some h \<Rightarrow> [h])"

text \<open>
  In the three queries below the source tests \<open>!isAvailable() || n >= MAX\<close>; the two tests
  are written one after the other, in the order the short-circuit evaluates them.
\<close>

definition GamepadInput_isAvailable :: "GamepadInput \<Rightarrow> bool" where
  "GamepadInput_isAvailable g = (controller g \<noteq> None)"

definition GamepadInput_isButtonPressed :: "GamepadInput \<Rightarrow> nat \<Rightarrow> bool" where
  "GamepadInput_isButtonPressed g button =
     (if \<not> GamepadInput_isAvailable g then False
      else if button \<ge> SDL_CONTROLLER_BUTTON_MAX then False
      else currentButtonStates g button)"

definition GamepadInput_isButtonJustPressed :: "GamepadInput \<Rightarrow> nat \<Rightarrow> bool" where
  "GamepadInput_isButtonJustPressed g button =
     (if \<not> GamepadInput_isAvailable g then False
      else if button \<ge> SDL_CONTROLLER_BUTTON_MAX then False
      else currentButtonStates g button \<and> \<not> previousButtonStates g button)"

text \<open>
  \<open>GamepadInput::getAxisValue\<close>. The part after the normalisation is \<open>apply_deadzone\<close>,
  with the local constant \<open>deadzone\<close> as its first argument; the source calls it with
  \<open>GamepadInput_deadzone\<close> = 0.15 only.
\<close>

definition normalizeFactor :: real where
  "normalizeFactor = 1 / 32768"

definition GamepadInput_deadzone :: real where
  "GamepadInput_deadzone = 15 / 100"

definition apply_deadzone :: "real \<Rightarrow> real \<Rightarrow> real" where
  "apply_deadzone deadzone normalizedValue =
     (if \<bar>normalizedValue\<bar> < deadzone then 0
      else (let sign = (if normalizedValue > 0 then 1 else - 1)
            in sign * (\<bar>normalizedValue\<bar> - deadzone) / (1 - deadzone)))"

definition GamepadInput_getAxisValue :: "GamepadInput \<Rightarrow> nat \<Rightarrow> real" where
  "GamepadInput_getAxisValue g axis =
     (if \<not> GamepadInput_isAvailable g then 0
      else if axis \<ge> SDL_CONTROLLER_AXIS_MAX then 0
      else (let normalizedValue = real_of_int (sint (axisValues g axis)) * normalizeFactor
            in apply_deadzone GamepadInput_deadzone normalizedValue))"

subsection \<open>SteamDeckInput\<close>

record SteamDeckInput =
  sd_gamepad :: GamepadInput
  hasGyro :: bool
  gyroX :: real
  gyroY :: real
  gyroZ :: real
  accelX :: real
  accelY :: real
  accelZ :: real

definition SteamDeckInput_new :: SteamDeckInput where
  "SteamDeckInput_new = \<lparr>sd_gamepad = GamepadInput_new, hasGyro = True,
     gyroX = 0, gyroY = 0, gyroZ = 0, accelX = 0, accelY = 0, accelZ = 0\<rparr>"

definition SteamDeckInput_update :: "SDL \<Rightarrow> SteamDeckInput \<Rightarrow> SteamDeckInput" where
  "SteamDeckInput_update p s = s\<lparr>sd_gamepad := GamepadInput_update p (sd_gamepad s)\<rparr>"

definition SteamDeckInput_isAvailable :: "SteamDeckInput \<Rightarrow> bool" where
  "SteamDeckInput_isAvailable s = GamepadInput_isAvailable (sd_gamepad s)"

definition SteamDeckInput_isButtonPressed :: "SteamDeckInput \<Rightarrow> nat \<Rightarrow> bool" where
  "SteamDeckInput_isButtonPressed s button = GamepadInput_isButtonPressed (sd_gamepad s) button"

definition SteamDeckInput_isButtonJustPressed :: "SteamDeckInput \<Rightarrow> nat \<Rightarrow> bool" where
  "SteamDeckInput_isButtonJustPressed s button =
     GamepadInput_isButtonJustPressed (sd_gamepad s) button"

definition SteamDeckInput_getAxisValue :: "SteamDeckInput \<Rightarrow> nat \<Rightarrow> real" where
  "SteamDeckInput_getAxisValue s axis = GamepadInput_getAxisValue (sd_gamepad s) axis"

subsection \<open>The manager of the device classes\<close>

text \<open>
  The class \<open>InputManager\<close> of \<^verbatim>\<open>InputManager.h\<close>, which owns one device object of each
  class. It is \<open>DeviceManager\<close> here, the name \<open>InputManager\<close> being the binding-table class
  below; its member functions carry the prefix \<open>DeviceManager_\<close>. A \<open>unique_ptr\<close> is an
  option. The events are declared with the binding-table class, which handles more of them.
\<close>

record DeviceManager =
  initialized :: bool
  keyboard :: "KeyboardInput option"
  mouse :: "MouseInput option"
  gamepad :: "GamepadInput option"
  steamDeck :: "SteamDeckInput option"
  isSteamDeckHardware :: bool

definition DeviceManager_new :: DeviceManager where
  "DeviceManager_new = \<lparr>initialized = False, keyboard = None, mouse = None, gamepad = None,
     steamDeck = None, isSteamDeckHardware = False\<rparr>"

definition DeviceManager_initialize :: "SDL \<Rightarrow> DeviceManager \<Rightarrow> bool \<times> DeviceManager" where
  "DeviceManager_initialize p d =
     (if sdl_init_result p < 0 then (False, d)
      else (let d1 = d\<lparr>keyboard := Some KeyboardInput_new, mouse := Some MouseInput_new,
                        gamepad := Some GamepadInput_new\<rparr>;
                d2 = d1\<lparr>isSteamDeckHardware := (getenv_SteamDeck p = Some ''1'')\<rparr>;
                d3 = (if isSteamDeckHardware d2 then d2\<lparr>steamDeck := Some SteamDeckInput_new\<rparr>
                      else d2)
            in (True, d3\<lparr>initialized := True\<rparr>)))"

definition DeviceManager_isGamepadAvailable :: "DeviceManager \<Rightarrow> bool" where
  "DeviceManager_isGamepadAvailable d =
     (case gamepad d of None \<Rightarrow> False | Some g \<Rightarrow> GamepadInput_isAvailable g)"

definition DeviceManager_isSteamDeckAvailable :: "DeviceManager \<Rightarrow> bool" where
  "DeviceManager_isSteamDeckAvailable d =
     (case steamDeck d of None \<Rightarrow> False | Some s \<Rightarrow> SteamDeckInput_isAvailable s)"

text \<open>
  In the three gamepad queries the device pointer is read only after the availability
  test, which includes the null test, has passed: the \<open>None\<close> cases are never reached.
\<close>

definition DeviceManager_isGamepadButtonPressed :: "DeviceManager \<Rightarrow> nat \<Rightarrow> bool" where
  "DeviceManager_isGamepadButtonPressed d button =
     (if DeviceManager_isSteamDeckAvailable d
      then (case steamDeck d of
              Some s \<Rightarrow> SteamDeckInput_isButtonPressed s button | None \<Rightarrow> False)
      else if DeviceManager_isGamepadAvailable d
      then (case gamepad d of
              Some g \<Rightarrow> GamepadInput_isButtonPressed g button | None \<Rightarrow> False)
      else False)"

definition DeviceManager_isGamepadButtonJustPressed :: "DeviceManager \<Rightarrow> nat \<Rightarrow> bool" where
  "DeviceManager_isGamepadButtonJustPressed d button =
     (if DeviceManager_isSteamDeckAvailable d
      then (case steamDeck d of
              Some s \<Rightarrow> SteamDeckInput_isButtonJustPressed s button | None \<Rightarrow> False)
      else if DeviceManager_isGamepadAvailable d
      then (case gamepad d of
              Some g \<Rightarrow> GamepadInput_isButtonJustPressed g button | None \<Rightarrow> False)
      else False)"

definition DeviceManager_getGamepadAxisValue :: "DeviceManager \<Rightarrow> nat \<Rightarrow> real" where
  "DeviceManager_getGamepadAxisValue d axis =
     (if DeviceManager_isSteamDeckAvailable d
      then (case steamDeck d of
              Some s \<Rightarrow> SteamDeckInput_getAxisValue s axis | None \<Rightarrow> 0)
      else if DeviceManager_isGamepadAvailable d
      then (case gamepad d of
              Some g \<Rightarrow> GamepadInput_getAxisValue g axis | None \<Rightarrow> 0)
      else 0)"

section \<open>The binding-table design: the class InputManager with command bindings\<close>

datatype InputType = KEYBOARD | MOUSE | GAMEPAD | TOUCHSCREEN

datatype GamepadButton =
    Button_A | Button_B | Button_X | Button_Y
  | Button_BACK | Button_GUIDE | Button_START
  | Button_LEFTSTICK | Button_RIGHTSTICK
  | Button_LEFTSHOULDER | Button_RIGHTSHOULDER
  | Button_DPAD_UP | Button_DPAD_DOWN | Button_DPAD_LEFT | Button_DPAD_RIGHT
  | Button_MISC1 | Button_PADDLE1 | Button_PADDLE2 | Button_PADDLE3 | Button_PADDLE4
  | Button_TOUCHPAD
  | Button_NONE

datatype GamepadAxis =
    Axis_LEFTX | Axis_LEFTY | Axis_RIGHTX | Axis_RIGHTY
  | Axis_TRIGGERLEFT | Axis_TRIGGERRIGHT
  | Axis_NONE

record TouchPoint =
  tp_id :: "32 word"
  tp_x :: real
  tp_y :: real
  tp_pressed :: bool

text \<open>
  A \<open>CommandFunction\<close> is \<open>std::function<void(Game*, float)>\<close>: it acts on the game, of any
  type \<open>'g\<close>, and is given one float. A bound command is taken to be callable (not an
  empty \<open>std::function\<close>) and to touch the game only, not the input manager that calls it.
\<close>

type_synonym 'g CommandFunction = "'g \<Rightarrow> real \<Rightarrow> 'g"

text \<open>
  The calls \<open>update\<close> makes are observed as a list, in the order they are made: each entry
  is the identifier of the binding whose loop iteration made the call, the command called
  and the float passed to it.
\<close>

datatype PhysicalInput =
    KeyboardKey SDL_Keycode
  | MouseButton int
  | GamepadButtonId GamepadButton
  | GamepadAxisId GamepadAxis
  | TouchGesture

type_synonym 'g invocation = "PhysicalInput \<times> 'g CommandFunction \<times> real"


datatype error = NullPointerDereference

record 'g InputManager =
  m_gameController :: "handle option"
  m_gameControllerIndex :: int
  m_activeInputMethod :: InputType
  m_currentKeyboardState :: keys_ptr
  m_previousKeyState :: "SDL_Keycode \<rightharpoonup> bool"
  m_keyCommands :: "(SDL_Keycode \<times> 'g CommandFunction) list"
  m_currentMouseState :: "32 word"
  m_previousMouseState :: "32 word"
  m_mouseX :: int
  m_mouseY :: int
  m_mouseDeltaX :: int
  m_mouseDeltaY :: int
  m_mouseCommands :: "(int \<times> 'g CommandFunction) list"
  m_currentGamepadButtonState :: "GamepadButton \<rightharpoonup> bool"
  m_previousGamepadButtonState :: "GamepadButton \<rightharpoonup> bool"
  m_gamepadAxisValues :: "GamepadAxis \<rightharpoonup> real"
  m_gamepadButtonCommands :: "(GamepadButton \<times> 'g CommandFunction) list"
  m_gamepadAxisCommands :: "(GamepadAxis \<times> 'g CommandFunction \<times> real) list"
  m_touchPoints :: "TouchPoint list"
  m_touchCommand :: "'g CommandFunction option"

text \<open>
  The four \<open>unordered_map\<close>s that \<open>update\<close> iterates over are association lists with one
  entry per key, in the order of iteration; the maps that are only looked up are maps.
\<close>

definition InputManager_new :: "'g InputManager" where
  "InputManager_new = \<lparr>m_gameController = None, m_gameControllerIndex = - 1,
     m_activeInputMethod = KEYBOARD, m_currentKeyboardState = nullptr,
     m_previousKeyState = Map.empty, m_keyCommands = [],
     m_currentMouseState = 0, m_previousMouseState = 0,
     m_mouseX = 0, m_mouseY = 0, m_mouseDeltaX = 0, m_mouseDeltaY = 0,
     m_mouseCommands = [],
     m_currentGamepadButtonState = Map.empty, m_previousGamepadButtonState = Map.empty,
     m_gamepadAxisValues = Map.empty, m_gamepadButtonCommands = [],
     m_gamepadAxisCommands = [], m_touchPoints = [], m_touchCommand = None\<rparr>"

text \<open>
  The loop of \<open>init\<close> and of the device-removed event: it assigns \<open>m_gameController\<close> at
  every game controller it tries, and the index at the first one that opens.
\<close>

fun open_loop :: "SDL \<Rightarrow> int list \<Rightarrow> handle option \<times> int \<Rightarrow> handle option \<times> int" where
  "open_loop p [] st = st"
| "open_loop p (i # is) (c, idx) =
     (if is_game_controller p i
      then (case game_controller_open p i of
              Some h \<Rightarrow> (Some h, i)
            | None \<Rightarrow> open_loop p is (None, idx))
      else open_loop p is (c, idx))"

definition init :: "SDL \<Rightarrow> 'g InputManager \<Rightarrow> bool \<times> 'g InputManager" where
  "init p m =
     (if \<not> was_init_gamecontroller p \<and> init_subsystem_result p < 0 then (False, m)
      else (let m1 = m\<lparr>m_currentKeyboardState := SDL_GetKeyboardState p\<rparr>;
                (c, idx) = open_loop p (joystick_indices p)
                             (m_gameController m1, m_gameControllerIndex m1)
            in (True, m1\<lparr>m_gameController := c, m_gameControllerIndex := idx\<rparr>)))"

definition shutdown :: "'g InputManager \<Rightarrow> 'g InputManager" where
  "shutdown m = (if m_gameController m \<noteq> None then m\<lparr>m_gameController := None\<rparr> else m)"

subsection \<open>Bindings\<close>

definition bindKeyCommand ::
  "SDL_Keycode \<Rightarrow> 'g CommandFunction \<Rightarrow> 'g InputManager \<Rightarrow> 'g InputManager" where
  "bindKeyCommand key command m = m\<lparr>m_keyCommands := AList.update key command (m_keyCommands m)\<rparr>"

definition bindMouseCommand ::
  "int \<Rightarrow> 'g CommandFunction \<Rightarrow> 'g InputManager \<Rightarrow> 'g InputManager" where
  "bindMouseCommand button command m =
     m\<lparr>m_mouseCommands := AList.update button command (m_mouseCommands m)\<rparr>"

definition bindGamepadButtonCommand ::
  "GamepadButton \<Rightarrow> 'g CommandFunction \<Rightarrow> 'g InputManager \<Rightarrow> 'g InputManager" where
  "bindGamepadButtonCommand button command m =
     m\<lparr>m_gamepadButtonCommands := AList.update button command (m_gamepadButtonCommands m)\<rparr>"

definition bindGamepadAxisCommand ::
  "GamepadAxis \<Rightarrow> 'g CommandFunction \<Rightarrow> real \<Rightarrow> 'g InputManager \<Rightarrow> 'g InputManager" where
  "bindGamepadAxisCommand axis command deadzone m =
     m\<lparr>m_gamepadAxisCommands := AList.update axis (command, deadzone) (m_gamepadAxisCommands m)\<rparr>"

text \<open>The declaration gives the last parameter the default \<open>deadzone = 0.25f\<close>.\<close>

definition default_axis_deadzone :: real where
  "default_axis_deadzone = 25 / 100"

definition bindGamepadAxisCommand_default ::
  "GamepadAxis \<Rightarrow> 'g CommandFunction \<Rightarrow> 'g InputManager \<Rightarrow> 'g InputManager" where
  "bindGamepadAxisCommand_default axis command m =
     bindGamepadAxisCommand axis command default_axis_deadzone m"

definition bindTouchCommand :: "'g CommandFunction \<Rightarrow> 'g InputManager \<Rightarrow> 'g InputManager" where
  "bindTouchCommand command m = m\<lparr>m_touchCommand := Some command\<rparr>"

subsection \<open>Queries\<close>

text \<open>Reading \<open>ptr[i]\<close>: a read through the null pointer is the error.\<close>

definition deref_keys :: "SDL \<Rightarrow> keys_ptr \<Rightarrow> SDL_Scancode \<Rightarrow> error + 8 word" where
  "deref_keys p ptr i =
     (case ptr of nullptr \<Rightarrow> Inl NullPointerDereference | sdl_keys \<Rightarrow> Inr (keyboard_state p i))"

definition find_or_false :: "('k \<rightharpoonup> bool) \<Rightarrow> 'k \<Rightarrow> bool" where
  "find_or_false t k = (case t k of Some v \<Rightarrow> v | None \<Rightarrow> False)"

definition isKeyDown :: "SDL \<Rightarrow> 'g InputManager \<Rightarrow> SDL_Keycode \<Rightarrow> error + bool" where
  "isKeyDown p m key =
     (let scancode = scancode_from_key p key
      in case deref_keys p (m_currentKeyboardState m) scancode of
           Inl e \<Rightarrow> Inl e
         | Inr v \<Rightarrow> Inr (v \<noteq> 0))"

definition isKeyPressed :: "SDL \<Rightarrow> 'g InputManager \<Rightarrow> SDL_Keycode \<Rightarrow> error + bool" where
  "isKeyPressed p m key =
     (let scancode = scancode_from_key p key;
          prevState = find_or_false (m_previousKeyState m) key
      in case deref_keys p (m_currentKeyboardState m) scancode of
           Inl e \<Rightarrow> Inl e
         | Inr v \<Rightarrow> Inr (v \<noteq> 0 \<and> \<not> prevState))"

definition isKeyReleased :: "SDL \<Rightarrow> 'g InputManager \<Rightarrow> SDL_Keycode \<Rightarrow> error + bool" where
  "isKeyReleased p m key =
     (let scancode = scancode_from_key p key;
          prevState = find_or_false (m_previousKeyState m) key
      in case deref_keys p (m_currentKeyboardState m) scancode of
           Inl e \<Rightarrow> Inl e
         | Inr v \<Rightarrow> Inr (v = 0 \<and> prevState))"

definition isMouseButtonDown :: "'g InputManager \<Rightarrow> int \<Rightarrow> bool" where
  "isMouseButtonDown m button = (m_currentMouseState m AND SDL_BUTTON button \<noteq> 0)"

definition isMouseButtonPressed :: "'g InputManager \<Rightarrow> int \<Rightarrow> bool" where
  "isMouseButtonPressed m button =
     (m_currentMouseState m AND SDL_BUTTON button \<noteq> 0
      \<and> m_previousMouseState m AND SDL_BUTTON button = 0)"

definition isMouseButtonReleased :: "'g InputManager \<Rightarrow> int \<Rightarrow> bool" where
  "isMouseButtonReleased m button =
     (m_currentMouseState m AND SDL_BUTTON button = 0
      \<and> m_previousMouseState m AND SDL_BUTTON button \<noteq> 0)"

definition isGamepadButtonDown :: "'g InputManager \<Rightarrow> GamepadButton \<Rightarrow> bool" where
  "isGamepadButtonDown m button = find_or_false (m_currentGamepadButtonState m) button"

definition isGamepadButtonPressed :: "'g InputManager \<Rightarrow> GamepadButton \<Rightarrow> bool" where
  "isGamepadButtonPressed m button =
     (let currState = find_or_false (m_currentGamepadButtonState m) button;
          prevState = find_or_false (m_previousGamepadButtonState m) button
      in currState \<and> \<not> prevState)"

definition isGamepadButtonReleased :: "'g InputManager \<Rightarrow> GamepadButton \<Rightarrow> bool" where
  "isGamepadButtonReleased m button =
     (let currState = find_or_false (m_currentGamepadButtonState m) button;
          prevState = find_or_false (m_previousGamepadButtonState m) button
      in \<not> currState \<and> prevState)"

definition getGamepadAxisValue :: "'g InputManager \<Rightarrow> GamepadAxis \<Rightarrow> real" where
  "getGamepadAxisValue m axis = (case m_gamepadAxisValues m axis of Some v \<Rightarrow> v | None \<Rightarrow> 0)"

definition getTouchPoints :: "'g InputManager \<Rightarrow> TouchPoint list" where
  "getTouchPoints m = m_touchPoints m"

definition isTouchActive :: "'g InputManager \<Rightarrow> bool" where
  "isTouchActive m = (m_touchPoints m \<noteq> [])"

definition getActiveInputMethod :: "'g InputManager \<Rightarrow> InputType" where
  "getActiveInputMethod m = m_activeInputMethod m"

subsection \<open>The per-frame update\<close>

text \<open>
  The two static helpers map SDL's button and axis numbers (0 to 15 and 0 to 5 in the
  SDL headers) to the logical enumerations; every other number is \<open>NONE\<close>.
\<close>

definition sdlButtonToGamepadButton :: "nat \<Rightarrow> GamepadButton" where
  "sdlButtonToGamepadButton button =
     (if button = 0 then Button_A else if button = 1 then Button_B
      else if button = 2 then Button_X else if button = 3 then Button_Y
      else if button = 4 then Button_BACK else if button = 5 then Button_GUIDE
      else if button = 6 then Button_START else if button = 7 then Button_LEFTSTICK
      else if button = 8 then Button_RIGHTSTICK else if button = 9 then Button_LEFTSHOULDER
      else if button = 10 then Button_RIGHTSHOULDER else if button = 11 then Button_DPAD_UP
      else if button = 12 then Button_DPAD_DOWN else if button = 13 then Button_DPAD_LEFT
      else if button = 14 then Button_DPAD_RIGHT else if button = 15 then Button_MISC1
      else Button_NONE)"

definition sdlAxisToGamepadAxis :: "nat \<Rightarrow> GamepadAxis" where
  "sdlAxisToGamepadAxis axis =
     (if axis = 0 then Axis_LEFTX else if axis = 1 then Axis_LEFTY
      else if axis = 2 then Axis_RIGHTX else if axis = 3 then Axis_RIGHTY
      else if axis = 4 then Axis_TRIGGERLEFT else if axis = 5 then Axis_TRIGGERRIGHT
      else Axis_NONE)"

text \<open>
  \<open>updateKeyboardState\<close>: for every scancode with a known key, the state read now through
  the keyboard pointer is stored as the previous state of that key.
\<close>

fun updateKeyboardState_loop ::
  "SDL \<Rightarrow> SDL_Scancode list \<Rightarrow> 'g InputManager \<Rightarrow> error + 'g InputManager" where
  "updateKeyboardState_loop p [] m = Inr m"
| "updateKeyboardState_loop p (i # is) m =
     (let key = key_from_scancode p i
      in if key \<noteq> SDLK_UNKNOWN
         then (case deref_keys p (m_currentKeyboardState m) i of
                 Inl e \<Rightarrow> Inl e
               | Inr v \<Rightarrow>
                   updateKeyboardState_loop p is
                     (m\<lparr>m_previousKeyState := (m_previousKeyState m)(key \<mapsto> v \<noteq> 0)\<rparr>))
         else updateKeyboardState_loop p is m)"

definition updateKeyboardState :: "SDL \<Rightarrow> 'g InputManager \<Rightarrow> error + 'g InputManager" where
  "updateKeyboardState p m = updateKeyboardState_loop p [0 ..< SDL_NUM_SCANCODES] m"

definition updateMouseState :: "SDL \<Rightarrow> 'g InputManager \<Rightarrow> 'g InputManager" where
  "updateMouseState p m =
     (let m1 = m\<lparr>m_previousMouseState := m_currentMouseState m\<rparr>
      in m1\<lparr>m_currentMouseState := mouse_state p, m_mouseX := mouse_x p, m_mouseY := mouse_y p\<rparr>)"

fun update_buttons_loop ::
  "SDL \<Rightarrow> handle \<Rightarrow> nat list \<Rightarrow> (GamepadButton \<rightharpoonup> bool) \<Rightarrow> (GamepadButton \<rightharpoonup> bool)" where
  "update_buttons_loop p h [] st = st"
| "update_buttons_loop p h (i # is) st =
     (let button = sdlButtonToGamepadButton i
      in if button \<noteq> Button_NONE
         then (let pressed = (game_controller_button p h i \<noteq> 0)
               in update_buttons_loop p h is (st(button \<mapsto> pressed)))
         else update_buttons_loop p h is st)"

fun update_axes_loop ::
  "SDL \<Rightarrow> handle \<Rightarrow> nat list \<Rightarrow> (GamepadAxis \<rightharpoonup> real) \<Rightarrow> (GamepadAxis \<rightharpoonup> real)" where
  "update_axes_loop p h [] st = st"
| "update_axes_loop p h (i # is) st =
     (let axis = sdlAxisToGamepadAxis i
      in if axis \<noteq> Axis_NONE
         then (let v = real_of_int (sint (game_controller_axis p h i)) / 32767
               in update_axes_loop p h is (st(axis \<mapsto> v)))
         else update_axes_loop p h is st)"

definition updateGamepadState :: "SDL \<Rightarrow> 'g InputManager \<Rightarrow> 'g InputManager" where
  "updateGamepadState p m =
     (case m_gameController m of
        None \<Rightarrow> m
      | Some h \<Rightarrow>
          (let m1 = m\<lparr>m_previousGamepadButtonState := m_currentGamepadButtonState m\<rparr>;
               m2 = m1\<lparr>m_currentGamepadButtonState :=
                         update_buttons_loop p h [0 ..< SDL_CONTROLLER_BUTTON_MAX]
                           (m_currentGamepadButtonState m1)\<rparr>
           in m2\<lparr>m_gamepadAxisValues :=
                    update_axes_loop p h [0 ..< SDL_CONTROLLER_AXIS_MAX] (m_gamepadAxisValues m2)\<rparr>))"

text \<open>The five dispatch loops of \<open>update\<close>, each over its binding table.\<close>

fun process_key_commands ::
  "SDL \<Rightarrow> real \<Rightarrow> (SDL_Keycode \<times> 'g CommandFunction) list \<Rightarrow> 'g InputManager
     \<Rightarrow> error + ('g InputManager \<times> 'g invocation list)" where
  "process_key_commands p deltaTime [] m = Inr (m, [])"
| "process_key_commands p deltaTime ((key, command) # rest) m =
     (case isKeyDown p m key of
        Inl e \<Rightarrow> Inl e
      | Inr down \<Rightarrow>
          if down
          then (case process_key_commands p deltaTime rest (m\<lparr>m_activeInputMethod := KEYBOARD\<rparr>) of
                  Inl e \<Rightarrow> Inl e
                | Inr (m', calls) \<Rightarrow> Inr (m', (KeyboardKey key, command, deltaTime) # calls))
          else process_key_commands p deltaTime rest m)"

fun process_mouse_commands ::
  "real \<Rightarrow> (int \<times> 'g CommandFunction) list \<Rightarrow> 'g InputManager
     \<Rightarrow> 'g InputManager \<times> 'g invocation list" where
  "process_mouse_commands deltaTime [] m = (m, [])"
| "process_mouse_commands deltaTime ((button, command) # rest) m =
     (if isMouseButtonDown m button
      then (let (m', calls) = process_mouse_commands deltaTime rest (m\<lparr>m_activeInputMethod := MOUSE\<rparr>)
            in (m', (MouseButton button, command, deltaTime) # calls))
      else process_mouse_commands deltaTime rest m)"

fun process_button_commands ::
  "real \<Rightarrow> (GamepadButton \<times> 'g CommandFunction) list \<Rightarrow> 'g InputManager
     \<Rightarrow> 'g InputManager \<times> 'g invocation list" where
  "process_button_commands deltaTime [] m = (m, [])"
| "process_button_commands deltaTime ((button, command) # rest) m =
     (if isGamepadButtonDown m button
      then (let (m', calls) =
                  process_button_commands deltaTime rest (m\<lparr>m_activeInputMethod := GAMEPAD\<rparr>)
            in (m', (GamepadButtonId button, command, deltaTime) # calls))
      else process_button_commands deltaTime rest m)"

fun process_axis_commands ::
  "(GamepadAxis \<times> 'g CommandFunction \<times> real) list \<Rightarrow> 'g InputManager
     \<Rightarrow> 'g InputManager \<times> 'g invocation list" where
  "process_axis_commands [] m = (m, [])"
| "process_axis_commands ((axis, command, deadzone) # rest) m =
     (let v = getGamepadAxisValue m axis
      in if \<bar>v\<bar> > deadzone
         then (let (m', calls) = process_axis_commands rest (m\<lparr>m_activeInputMethod := GAMEPAD\<rparr>)
               in (m', (GamepadAxisId axis, command, v) # calls))
         else process_axis_commands rest m)"

definition process_touch_command ::
  "real \<Rightarrow> 'g InputManager \<Rightarrow> 'g InputManager \<times> 'g invocation list" where
  "process_touch_command deltaTime m =
     (case m_touchCommand m of
        Some command \<Rightarrow>
          if isTouchActive m
          then (m\<lparr>m_activeInputMethod := TOUCHSCREEN\<rparr>, [(TouchGesture, command, deltaTime)])
          else (m, [])
      | None \<Rightarrow> (m, []))"

definition update ::
  "SDL \<Rightarrow> real \<Rightarrow> 'g InputManager \<Rightarrow> error + ('g InputManager \<times> 'g invocation list)" where
  "update p deltaTime m =
     (case updateKeyboardState p m of
        Inl e \<Rightarrow> Inl e
      | Inr m1 \<Rightarrow>
          (let m2 = updateMouseState p m1;
               m3 = updateGamepadState p m2
           in case process_key_commands p deltaTime (m_keyCommands m3) m3 of
                Inl e \<Rightarrow> Inl e
              | Inr (m4, key_calls) \<Rightarrow>
                  (let (m5, mouse_calls) = process_mouse_commands deltaTime (m_mouseCommands m4) m4;
                       (m6, button_calls) =
                          process_button_commands deltaTime (m_gamepadButtonCommands m5) m5;
                       (m7, axis_calls) = process_axis_commands (m_gamepadAxisCommands m6) m6;
                       (m8, touch_calls) = process_touch_command deltaTime m7
                   in Inr (m8, key_calls @ mouse_calls @ button_calls @ axis_calls @ touch_calls))))"

subsection \<open>Events\<close>

datatype SDL_Event =
    SDL_KEYDOWN | SDL_KEYUP
  | SDL_MOUSEMOTION int int int int
  | SDL_MOUSEBUTTONDOWN | SDL_MOUSEBUTTONUP
  | SDL_CONTROLLERDEVICEADDED int
  | SDL_CONTROLLERDEVICEREMOVED int
  | SDL_CONTROLLERBUTTONDOWN | SDL_CONTROLLERBUTTONUP
  | SDL_CONTROLLERAXISMOTION
  | SDL_FINGERDOWN "64 word" real real
  | SDL_FINGERUP "64 word" real real
  | SDL_FINGERMOTION "64 word" real real
  | SDL_OTHER_EVENT

text \<open>
  The loop of the finger-down case: the first point with the id is replaced and the loop
  stops (\<open>Some\<close>); \<open>None\<close> when no point has the id.
\<close>

fun replace_touch_point :: "TouchPoint \<Rightarrow> TouchPoint list \<Rightarrow> TouchPoint list option" where
  "replace_touch_point point [] = None"
| "replace_touch_point point (tp # tps) =
     (if tp_id tp = tp_id point then Some (point # tps)
      else map_option ((#) tp) (replace_touch_point point tps))"

text \<open>The loop of the finger-motion case: the first point with the id is moved.\<close>

fun move_touch_point :: "32 word \<Rightarrow> real \<Rightarrow> real \<Rightarrow> TouchPoint list \<Rightarrow> TouchPoint list" where
  "move_touch_point fid x y [] = []"
| "move_touch_point fid x y (tp # tps) =
     (if tp_id tp = fid then tp\<lparr>tp_x := x, tp_y := y\<rparr> # tps
      else tp # move_touch_point fid x y tps)"

text \<open>The loop of the finger-up case: every point with the id is erased.\<close>

fun erase_touch_point :: "32 word \<Rightarrow> TouchPoint list \<Rightarrow> TouchPoint list" where
  "erase_touch_point fid [] = []"
| "erase_touch_point fid (tp # tps) =
     (if tp_id tp = fid then erase_touch_point fid tps else tp # erase_touch_point fid tps)"

fun processEvent :: "SDL \<Rightarrow> SDL_Event \<Rightarrow> 'g InputManager \<Rightarrow> 'g InputManager" where
  "processEvent p SDL_KEYDOWN m = m\<lparr>m_activeInputMethod := KEYBOARD\<rparr>"
| "processEvent p SDL_KEYUP m = m\<lparr>m_activeInputMethod := KEYBOARD\<rparr>"
| "processEvent p (SDL_MOUSEMOTION x y xrel yrel) m =
     m\<lparr>m_mouseX := x, m_mouseY := y, m_mouseDeltaX := xrel, m_mouseDeltaY := yrel,
       m_activeInputMethod := MOUSE\<rparr>"
| "processEvent p SDL_MOUSEBUTTONDOWN m = m\<lparr>m_activeInputMethod := MOUSE\<rparr>"
| "processEvent p SDL_MOUSEBUTTONUP m = m\<lparr>m_activeInputMethod := MOUSE\<rparr>"
| "processEvent p (SDL_CONTROLLERDEVICEADDED which) m =
     (if m_gameController m = None
      then m\<lparr>m_gameController := game_controller_open p which, m_gameControllerIndex := which\<rparr>
      else m)"
| "processEvent p (SDL_CONTROLLERDEVICEREMOVED which) m =
     (if m_gameController m \<noteq> None \<and> which = m_gameControllerIndex m
      then (let (c, idx) = open_loop p (joystick_indices p) (None, - 1)
            in m\<lparr>m_gameController := c, m_gameControllerIndex := idx\<rparr>)
      else m)"
| "processEvent p SDL_CONTROLLERBUTTONDOWN m = m\<lparr>m_activeInputMethod := GAMEPAD\<rparr>"
| "processEvent p SDL_CONTROLLERBUTTONUP m = m\<lparr>m_activeInputMethod := GAMEPAD\<rparr>"
| "processEvent p SDL_CONTROLLERAXISMOTION m = m\<lparr>m_activeInputMethod := GAMEPAD\<rparr>"
| "processEvent p (SDL_FINGERDOWN fingerId x y) m =
     (let point = \<lparr>tp_id = ucast fingerId, tp_x = x, tp_y = y, tp_pressed = True\<rparr>;
          tps = (case replace_touch_point point (m_touchPoints m) of
                   Some tps' \<Rightarrow> tps'
                 | None \<Rightarrow> m_touchPoints m @ [point])
      in m\<lparr>m_touchPoints := tps, m_activeInputMethod := TOUCHSCREEN\<rparr>)"
| "processEvent p (SDL_FINGERUP fingerId x y) m =
     m\<lparr>m_touchPoints := erase_touch_point (ucast fingerId) (m_touchPoints m),
       m_activeInputMethod := TOUCHSCREEN\<rparr>"
| "processEvent p (SDL_FINGERMOTION fingerId x y) m =
     m\<lparr>m_touchPoints := move_touch_point (ucast fingerId) x y (m_touchPoints m),
       m_activeInputMethod := TOUCHSCREEN\<rparr>"
| "processEvent p SDL_OTHER_EVENT m = m"

text \<open>
  The handle \<open>processEvent\<close> passes to \<open>SDL_GameControllerClose\<close>: the bound one, at a
  controller-removed event for the bound device index.
\<close>

definition processEvent_closes :: "SDL_Event \<Rightarrow> 'g InputManager \<Rightarrow> handle list" where
  "processEvent_closes e m =
     (case e of
        SDL_CONTROLLERDEVICEREMOVED which \<Rightarrow>
          (case m_gameController m of
             Some h \<Rightarrow> if which = m_gameControllerIndex m then [h] else []
           | None \<Rightarrow> [])
      | _ \<Rightarrow> [])"

subsection \<open>The update of the manager of the device classes\<close>

text \<open>
  \<open>InputManager::update\<close> of the device manager drains the event queue first: at every
  controller-added or controller-removed event an existing gamepad object is replaced by
  a new one (whose destructor closes the handle of the old one), "to force the gamepad to
  re-detect on the next update". It then updates the four devices. The first argument is
  the content of the event queue.
\<close>

fun is_controller_device_event :: "SDL_Event \<Rightarrow> bool" where
  "is_controller_device_event (SDL_CONTROLLERDEVICEADDED which) = True"
| "is_controller_device_event (SDL_CONTROLLERDEVICEREMOVED which) = True"
| "is_controller_device_event e = False"

fun poll_events :: "SDL_Event list \<Rightarrow> DeviceManager \<Rightarrow> DeviceManager" where
  "poll_events [] d = d"
| "poll_events (event # rest) d =
     (if is_controller_device_event event
      then (if gamepad d \<noteq> None then poll_events rest (d\<lparr>gamepad := Some GamepadInput_new\<rparr>)
            else poll_events rest d)
      else poll_events rest d)"

text \<open>
  The handles closed while the queue is drained: replacing the gamepad object destroys the
  old one, whose destructor closes the handle it holds.
\<close>

fun poll_events_closes :: "SDL_Event list \<Rightarrow> DeviceManager \<Rightarrow> handle list" where
  "poll_events_closes [] d = []"
| "poll_events_closes (event # rest) d =
     (if is_controller_device_event event
      then (case gamepad d of
              Some g \<Rightarrow>
                GamepadInput_destroy_closes g
                  @ poll_events_closes rest (d\<lparr>gamepad := Some GamepadInput_new\<rparr>)
            | None \<Rightarrow> poll_events_closes rest d)
      else poll_events_closes rest d)"

definition DeviceManager_update :: "SDL_Event list \<Rightarrow> SDL \<Rightarrow> DeviceManager \<Rightarrow> DeviceManager" where
  "DeviceManager_update events p d =
     (let d1 = poll_events events d;
          d2 = d1\<lparr>keyboard := map_option (KeyboardInput_update p) (keyboard d1)\<rparr>;
          d3 = d2\<lparr>mouse := map_option (MouseInput_update p) (mouse d2)\<rparr>;
          d4 = d3\<lparr>gamepad := map_option (GamepadInput_update p) (gamepad d3)\<rparr>
      in d4\<lparr>steamDeck := map_option (SteamDeckInput_update p) (steamDeck d4)\<rparr>)"

subsection \<open>Observing one frame\<close>

text \<open>The calls of a frame that the binding of one identifier made.\<close>

definition calls_of :: "PhysicalInput \<Rightarrow> 'g invocation list \<Rightarrow> 'g invocation list" where
  "calls_of ident calls = filter (\<lambda>call. fst call = ident) calls"


text \<open>
  What the loop of \<open>updateKeyboardState\<close> stores when the keyboard pointer is set: the
  previous-state map after the scancodes of the list.
\<close>

fun previous_keys_loop ::
  "SDL \<Rightarrow> SDL_Scancode list \<Rightarrow> (SDL_Keycode \<rightharpoonup> bool) \<Rightarrow> (SDL_Keycode \<rightharpoonup> bool)" where
  "previous_keys_loop p [] st = st"
| "previous_keys_loop p (i # is) st =
     (if key_from_scancode p i \<noteq> SDLK_UNKNOWN
      then previous_keys_loop p is (st(key_from_scancode p i \<mapsto> keyboard_state p i \<noteq> 0))
      else previous_keys_loop p is st)"

text \<open>
  The state after the three state updates that \<open>update\<close> starts with, for a manager whose
  keyboard pointer is set, and the calls the five loops make in that state. The lemma
  \<open>update_initialised\<close> below proves that \<open>update\<close> computes exactly these.
\<close>

definition refreshed :: "SDL \<Rightarrow> 'g InputManager \<Rightarrow> 'g InputManager" where
  "refreshed p m =
     updateGamepadState p (updateMouseState p
       (m\<lparr>m_previousKeyState :=
            previous_keys_loop p [0 ..< SDL_NUM_SCANCODES] (m_previousKeyState m)\<rparr>))"

definition key_calls :: "SDL \<Rightarrow> real \<Rightarrow> 'g InputManager \<Rightarrow> 'g invocation list" where
  "key_calls p deltaTime m =
     map (\<lambda>(key, command). (KeyboardKey key, command, deltaTime))
       (filter (\<lambda>(key, command). keyboard_state p (scancode_from_key p key) \<noteq> 0) (m_keyCommands m))"

definition mouse_calls :: "real \<Rightarrow> 'g InputManager \<Rightarrow> 'g invocation list" where
  "mouse_calls deltaTime m =
     map (\<lambda>(button, command). (MouseButton button, command, deltaTime))
       (filter (\<lambda>(button, command). isMouseButtonDown m button) (m_mouseCommands m))"

definition button_calls :: "real \<Rightarrow> 'g InputManager \<Rightarrow> 'g invocation list" where
  "button_calls deltaTime m =
     map (\<lambda>(button, command). (GamepadButtonId button, command, deltaTime))
       (filter (\<lambda>(button, command). isGamepadButtonDown m button) (m_gamepadButtonCommands m))"

definition axis_calls :: "'g InputManager \<Rightarrow> 'g invocation list" where
  "axis_calls m =
     map (\<lambda>(axis, command, deadzone). (GamepadAxisId axis, command, getGamepadAxisValue m axis))
       (filter (\<lambda>(axis, command, deadzone). \<bar>getGamepadAxisValue m axis\<bar> > deadzone)
          (m_gamepadAxisCommands m))"

definition touch_calls :: "real \<Rightarrow> 'g InputManager \<Rightarrow> 'g invocation list" where
  "touch_calls deltaTime m = snd (process_touch_command deltaTime m)"

definition dispatch_calls :: "SDL \<Rightarrow> real \<Rightarrow> 'g InputManager \<Rightarrow> 'g invocation list" where
  "dispatch_calls p deltaTime m =
     key_calls p deltaTime m @ mouse_calls deltaTime m @ button_calls deltaTime m
       @ axis_calls m @ touch_calls deltaTime m"

text \<open>The binding tables hold one entry per identifier, as an \<open>unordered_map\<close> does.\<close>

definition tables_ok :: "'g InputManager \<Rightarrow> bool" where
  "tables_ok m =
     (distinct (map fst (m_keyCommands m)) \<and> distinct (map fst (m_mouseCommands m))
      \<and> distinct (map fst (m_gamepadButtonCommands m))
      \<and> distinct (map fst (m_gamepadAxisCommands m)))"


section \<open>The shaping formula as the specification words it\<close>

text \<open>
  The specification's formula \<open>shaped(v) = sign(v) * max(0, |v| - deadzone) / (1 - deadzone)\<close>,
  written as it stands, to compare the source with.
\<close>

definition spec_shaped :: "real \<Rightarrow> real \<Rightarrow> real" where
  "spec_shaped deadzone v = sgn v * max 0 (\<bar>v\<bar> - deadzone) / (1 - deadzone)"

section \<open>Platforms and managers used in the examples\<close>

text \<open>A platform in which nothing is pressed and no controller is connected.\<close>

definition sdl_idle :: SDL where
  "sdl_idle = \<lparr>keyboard_state = (\<lambda>i. 0), key_from_scancode = (\<lambda>i. 0),
     scancode_from_key = (\<lambda>k. 0), mouse_state = 0, mouse_x = 0, mouse_y = 0,
     was_init_gamecontroller = True, init_subsystem_result = 0, num_joysticks = 0,
     is_game_controller = (\<lambda>i. False), game_controller_open = (\<lambda>i. None),
     game_controller_attached = (\<lambda>h. False), game_controller_button = (\<lambda>h b. 0),
     game_controller_axis = (\<lambda>h a. 0), sdl_init_result = 0, getenv_SteamDeck = None\<rparr>"

text \<open>
  A platform with one game controller, at device index 0 and opened under handle 7, with
  the given button and axis readings.
\<close>

definition sdl_pad :: "(nat \<Rightarrow> 8 word) \<Rightarrow> (nat \<Rightarrow> 16 word) \<Rightarrow> SDL" where
  "sdl_pad buttons axes = sdl_idle\<lparr>num_joysticks := 1,
     is_game_controller := (\<lambda>i. i = 0),
     game_controller_open := (\<lambda>i. if i = 0 then Some 7 else None),
     game_controller_attached := (\<lambda>h. h = 7),
     game_controller_button := (\<lambda>h. if h = 7 then buttons else (\<lambda>b. 0)),
     game_controller_axis := (\<lambda>h. if h = 7 then axes else (\<lambda>a. 0))\<rparr>"

text \<open>The counter-increment command of the scenarios: the game is a counter.\<close>

definition increment :: "nat CommandFunction" where
  "increment game arg = game + 1"

text \<open>
  The scenario of the counter: button A of the controller held or released, and a manager
  initialised with that controller whose only binding is button A to \<open>increment\<close>.
\<close>

definition pad_held :: SDL where
  "pad_held = sdl_pad (\<lambda>b. if b = 0 then 1 else 0) (\<lambda>a. 0)"

definition pad_released :: SDL where
  "pad_released = sdl_pad (\<lambda>b. 0) (\<lambda>a. 0)"


text \<open>
  A platform with the key \<open>a\<close> (keycode 97, scancode 4), the left mouse button and button A
  of the controller down, and a manager with a command bound to each of the three and to
  the first back paddle.
\<close>

definition all_held :: SDL where
  "all_held = pad_held\<lparr>keyboard_state := (\<lambda>i. if i = 4 then 1 else 0),
     key_from_scancode := (\<lambda>i. if i = 4 then 97 else 0),
     scancode_from_key := (\<lambda>k. if k = 97 then 4 else 0),
     mouse_state := 1\<rparr>"




text \<open>
  The controller with its left stick at a raw x reading and nothing pressed, a manager
  after a successful \<open>init\<close> with that controller connected, and a second command.
\<close>

definition pad_stick :: "16 word \<Rightarrow> SDL" where
  "pad_stick raw = sdl_pad (\<lambda>b. 0) (\<lambda>a. if a = 0 then raw else 0)"

definition initialised_manager :: "nat InputManager" where
  "initialised_manager = snd (init pad_released InputManager_new)"

definition add_two :: "nat CommandFunction" where
  "add_two game arg = game + 2"

text \<open>The controller with button A down and the left stick at the raw x reading 20000.\<close>

definition pad_active :: SDL where
  "pad_active = sdl_pad (\<lambda>b. if b = 0 then 1 else 0) (\<lambda>a. if a = 0 then 20000 else 0)"

text \<open>
  The hotplug scenario: the controller of \<open>sdl_pad\<close> (handle 7) has been detached and a
  different one is connected, which opens under handle 8 and has button A down.
\<close>

definition pad_swapped :: SDL where
  "pad_swapped = sdl_idle\<lparr>num_joysticks := 1,
     is_game_controller := (\<lambda>i. i = 0),
     game_controller_open := (\<lambda>i. if i = 0 then Some 8 else None),
     game_controller_attached := (\<lambda>h. h = 8),
     game_controller_button := (\<lambda>h b. if h = 8 \<and> b = 0 then 1 else 0)\<rparr>"

definition gamepad_on_7 :: GamepadInput where
  "gamepad_on_7 = GamepadInput_update pad_held GamepadInput_new"

definition manager_on_7 :: DeviceManager where
  "manager_on_7 =
     DeviceManager_update [] pad_held (snd (DeviceManager_initialize pad_held DeviceManager_new))"

section \<open>Properties\<close>

subsection \<open>The previous state of the keyboard and mouse device classes\<close>

lemma KeyboardInput_update_previous:
  "key < SDL_NUM_SCANCODES \<Longrightarrow>
   previousKeyboardState (KeyboardInput_update p k) key = keyboard_state p key"
  by (simp add: KeyboardInput_update_def SDL_GetKeyboardState_def memcpy_def Let_def)

lemma KeyboardInput_never_just_pressed:
  "key < SDL_NUM_SCANCODES \<Longrightarrow>
   \<not> KeyboardInput_isKeyJustPressed p (KeyboardInput_update p k) key"
  by (simp add: KeyboardInput_isKeyJustPressed_def KeyboardInput_update_previous)

lemma MouseInput_edge:
  "MouseInput_isButtonJustPressed (MouseInput_update p m) b =
     (mouse_state p AND SDL_BUTTON b \<noteq> 0 \<and> mouseState m AND SDL_BUTTON b = 0)"
  by (simp add: MouseInput_isButtonJustPressed_def MouseInput_update_def Let_def)

lemma GamepadInput_update_previous:
  "b < SDL_CONTROLLER_BUTTON_MAX \<Longrightarrow>
   previousButtonStates (GamepadInput_update p g) b = currentButtonStates g b"
  by (simp add: GamepadInput_update_def memcpy_def Let_def split: option.splits)

subsection \<open>The deadzone shaping of the axis values\<close>

lemma apply_deadzone_inside: "\<bar>v\<bar> < dz \<Longrightarrow> apply_deadzone dz v = 0"
  by (simp add: apply_deadzone_def)

lemma apply_deadzone_pos:
  "dz \<le> v \<Longrightarrow> 0 < v \<Longrightarrow> apply_deadzone dz v = (v - dz) / (1 - dz)"
  by (simp add: apply_deadzone_def Let_def)

lemma apply_deadzone_neg:
  "dz \<le> - v \<Longrightarrow> v \<le> 0 \<Longrightarrow> apply_deadzone dz v = (dz + v) / (1 - dz)"
  by (simp add: apply_deadzone_def Let_def)



lemma apply_deadzone_abs:
  assumes a: "0 \<le> dz" "dz < 1"
  shows "\<bar>apply_deadzone dz v\<bar> = max 0 (\<bar>v\<bar> - dz) / (1 - dz)"
proof -
  consider "dz \<le> v \<and> 0 < v" | "dz \<le> - v \<and> v \<le> 0" | "\<bar>v\<bar> < dz" by linarith
  then show ?thesis
  proof cases
    case 1
    then have m: "max 0 (\<bar>v\<bar> - dz) = v - dz" by (simp add: max_def)
    have "0 \<le> (v - dz) / (1 - dz)" using 1 a by simp
    then have "\<bar>(v - dz) / (1 - dz)\<bar> = (v - dz) / (1 - dz)" by (rule abs_of_nonneg)
    then show ?thesis using 1 m by (simp only: apply_deadzone_pos)
  next
    case 2
    then have m: "max 0 (\<bar>v\<bar> - dz) = - v - dz" by (simp add: max_def)
    have e: "(dz + v) / (1 - dz) = - ((- v - dz) / (1 - dz))"
      by (simp add: minus_divide_left)
    have "0 \<le> (- v - dz) / (1 - dz)" using 2 a by simp
    then have "\<bar>- ((- v - dz) / (1 - dz))\<bar> = (- v - dz) / (1 - dz)"
      by (simp only: abs_minus_cancel abs_of_nonneg)
    then show ?thesis using 2 m e by (simp only: apply_deadzone_neg)
  next
    case 3
    then have "max 0 (\<bar>v\<bar> - dz) = 0" by (simp add: max_def)
    then show ?thesis using 3 by (simp add: apply_deadzone_inside)
  qed
qed


lemma apply_deadzone_le_1:
  assumes "0 \<le> dz" "dz < 1" "\<bar>v\<bar> \<le> 1"
  shows "\<bar>apply_deadzone dz v\<bar> \<le> 1"
proof -
  have "max 0 (\<bar>v\<bar> - dz) \<le> 1 - dz" using assms by (simp add: max_def)
  then have "max 0 (\<bar>v\<bar> - dz) / (1 - dz) \<le> 1" using assms by (simp add: divide_le_eq)
  then show ?thesis using assms by (simp add: apply_deadzone_abs)
qed

lemma getAxisValue_bound: "\<bar>GamepadInput_getAxisValue g axis\<bar> \<le> 1"
proof -
  have "- 32768 \<le> sint (axisValues g axis)" "sint (axisValues g axis) < 32768"
    using sint_ge [of "axisValues g axis"] sint_lt [of "axisValues g axis"] by simp_all
  then have "\<bar>real_of_int (sint (axisValues g axis))\<bar> \<le> 32768"
    by linarith
  then have "\<bar>real_of_int (sint (axisValues g axis)) * normalizeFactor\<bar> \<le> 1"
    by (simp add: normalizeFactor_def abs_mult)
  then show ?thesis
    using apply_deadzone_le_1 [of GamepadInput_deadzone]
    by (simp add: GamepadInput_getAxisValue_def GamepadInput_deadzone_def Let_def)
qed




subsection \<open>Touch points\<close>

lemma replace_touch_point_None:
  "replace_touch_point point tps = None \<longleftrightarrow> tp_id point \<notin> tp_id ` set tps"
  by (induction tps) auto

lemma replace_touch_point_ids:
  "replace_touch_point point tps = Some tps' \<Longrightarrow> map tp_id tps' = map tp_id tps"
  by (induction tps arbitrary: tps') (auto split: if_splits)

lemma move_touch_point_ids: "map tp_id (move_touch_point fid x y tps) = map tp_id tps"
  by (induction tps) auto

lemma erase_touch_point_filter:
  "erase_touch_point fid tps = filter (\<lambda>t. tp_id t \<noteq> fid) tps"
  by (induction tps) auto

lemma move_touch_point_map:
  "distinct (map tp_id tps) \<Longrightarrow>
   move_touch_point fid x y tps =
     map (\<lambda>t. if tp_id t = fid then t\<lparr>tp_x := x, tp_y := y\<rparr> else t) tps"
proof (induction tps)
  case Nil
  then show ?case by simp
next
  case (Cons t ts)
  show ?case
  proof (cases "tp_id t = fid")
    case True
    then have "\<forall>u \<in> set ts. tp_id u \<noteq> fid" using Cons.prems by (force simp: image_iff)
    then have "map (\<lambda>t. if tp_id t = fid then t\<lparr>tp_x := x, tp_y := y\<rparr> else t) ts = ts"
      by (induction ts) auto
    then show ?thesis using True by simp
  next
    case False
    then show ?thesis using Cons by simp
  qed
qed

lemma processEvent_touch_distinct:
  "distinct (map tp_id (m_touchPoints m)) \<Longrightarrow>
   distinct (map tp_id (m_touchPoints (processEvent p e m)))"
proof (cases e)
  case (SDL_FINGERDOWN fid x y)
  assume d: "distinct (map tp_id (m_touchPoints m))"
  show ?thesis
  proof (cases "replace_touch_point \<lparr>tp_id = ucast fid, tp_x = x, tp_y = y, tp_pressed = True\<rparr> (m_touchPoints m)")
    case None
    then have "ucast fid \<notin> tp_id ` set (m_touchPoints m)"
      by (simp add: replace_touch_point_None)
    then show ?thesis using d SDL_FINGERDOWN None
      by (simp add: Let_def)
  next
    case (Some tps')
    then show ?thesis using d SDL_FINGERDOWN replace_touch_point_ids [OF Some]
      by (simp add: Let_def)
  qed
next
  case (SDL_FINGERUP fid x y)
  assume "distinct (map tp_id (m_touchPoints m))"
  then show ?thesis using SDL_FINGERUP
    by (simp add: erase_touch_point_filter distinct_map_filter)
next
  case (SDL_FINGERMOTION fid x y)
  assume "distinct (map tp_id (m_touchPoints m))"
  then show ?thesis using SDL_FINGERMOTION by (simp add: move_touch_point_ids)
qed (auto split: if_splits prod.splits)

text \<open>
  C5. The touch points never hold two points with the same id: the empty list of a new
  manager does not, and no event breaks it. A finger-down event with a new id appends a
  point; a finger-motion event moves the point with that id in place and leaves every id
  as it is; a finger-up event removes the point with that id. A point created with id 3 at
  (10,20) and moved to (12,22) is returned by \<open>getTouchPoints\<close> with id 3 at (12,22), and
  after the release of id 3 it is gone.
\<close>

theorem C5_touch_points:
  "distinct (map tp_id (getTouchPoints (InputManager_new :: 'g InputManager)))
   \<and> (\<forall>p e (m :: 'g InputManager). distinct (map tp_id (getTouchPoints m)) \<longrightarrow>
          distinct (map tp_id (getTouchPoints (processEvent p e m))))
   \<and> (\<forall>p fid x y (m :: 'g InputManager). ucast fid \<notin> tp_id ` set (getTouchPoints m) \<longrightarrow>
          getTouchPoints (processEvent p (SDL_FINGERDOWN fid x y) m) =
            getTouchPoints m @ [\<lparr>tp_id = ucast fid, tp_x = x, tp_y = y, tp_pressed = True\<rparr>])
   \<and> (\<forall>p fid x y (m :: 'g InputManager). distinct (map tp_id (getTouchPoints m)) \<longrightarrow>
          getTouchPoints (processEvent p (SDL_FINGERMOTION fid x y) m) =
            map (\<lambda>t. if tp_id t = ucast fid then t\<lparr>tp_x := x, tp_y := y\<rparr> else t) (getTouchPoints m))
   \<and> (\<forall>p fid x y (m :: 'g InputManager).
          getTouchPoints (processEvent p (SDL_FINGERUP fid x y) m) =
            filter (\<lambda>t. tp_id t \<noteq> ucast fid) (getTouchPoints m))
   \<and> (\<forall>p. getTouchPoints (processEvent p (SDL_FINGERMOTION 3 12 22)
                (processEvent p (SDL_FINGERDOWN 3 10 20) (InputManager_new :: 'g InputManager))) =
            [\<lparr>tp_id = 3, tp_x = 12, tp_y = 22, tp_pressed = True\<rparr>])
   \<and> (\<forall>p. getTouchPoints (processEvent p (SDL_FINGERUP 3 12 22)
                (processEvent p (SDL_FINGERMOTION 3 12 22)
                  (processEvent p (SDL_FINGERDOWN 3 10 20) (InputManager_new :: 'g InputManager)))) = [])"
proof (intro conjI allI impI)
  show "distinct (map tp_id (getTouchPoints (InputManager_new :: 'g InputManager)))"
    by (simp add: getTouchPoints_def InputManager_new_def)
next
  fix p e and m :: "'g InputManager"
  assume "distinct (map tp_id (getTouchPoints m))"
  then show "distinct (map tp_id (getTouchPoints (processEvent p e m)))"
    unfolding getTouchPoints_def by (rule processEvent_touch_distinct)
next
  fix p x y and fid :: "64 word" and m :: "'g InputManager"
  assume "ucast fid \<notin> tp_id ` set (getTouchPoints m)"
  then have "replace_touch_point \<lparr>tp_id = ucast fid, tp_x = x, tp_y = y, tp_pressed = True\<rparr>
               (m_touchPoints m) = None"
    by (simp add: replace_touch_point_None getTouchPoints_def)
  then show "getTouchPoints (processEvent p (SDL_FINGERDOWN fid x y) m) =
      getTouchPoints m @ [\<lparr>tp_id = ucast fid, tp_x = x, tp_y = y, tp_pressed = True\<rparr>]"
    by (simp add: getTouchPoints_def Let_def)
next
  fix p x y and fid :: "64 word" and m :: "'g InputManager"
  assume "distinct (map tp_id (getTouchPoints m))"
  then show "getTouchPoints (processEvent p (SDL_FINGERMOTION fid x y) m) =
      map (\<lambda>t. if tp_id t = ucast fid then t\<lparr>tp_x := x, tp_y := y\<rparr> else t) (getTouchPoints m)"
    by (simp add: getTouchPoints_def move_touch_point_map)
next
  fix p x y and fid :: "64 word" and m :: "'g InputManager"
  show "getTouchPoints (processEvent p (SDL_FINGERUP fid x y) m) =
      filter (\<lambda>t. tp_id t \<noteq> ucast fid) (getTouchPoints m)"
    by (simp add: getTouchPoints_def erase_touch_point_filter)
next
  fix p
  show "getTouchPoints (processEvent p (SDL_FINGERMOTION 3 12 22)
          (processEvent p (SDL_FINGERDOWN 3 10 20) (InputManager_new :: 'g InputManager))) =
        [\<lparr>tp_id = 3, tp_x = 12, tp_y = 22, tp_pressed = True\<rparr>]"
    by (simp add: getTouchPoints_def InputManager_new_def Let_def)
next
  fix p
  show "getTouchPoints (processEvent p (SDL_FINGERUP 3 12 22)
          (processEvent p (SDL_FINGERMOTION 3 12 22)
            (processEvent p (SDL_FINGERDOWN 3 10 20) (InputManager_new :: 'g InputManager)))) = []"
    by (simp add: getTouchPoints_def InputManager_new_def Let_def)
qed

theorem C5_touch_points_witness:
  "distinct (map tp_id (getTouchPoints
      (processEvent sdl_idle (SDL_FINGERDOWN 3 10 20) (InputManager_new :: unit InputManager))))
   \<and> distinct (map tp_id (getTouchPoints (processEvent sdl_idle (SDL_FINGERDOWN 5 1 2)
      (processEvent sdl_idle (SDL_FINGERDOWN 3 10 20) (InputManager_new :: unit InputManager)))))
   \<and> (ucast (5 :: 64 word) :: 32 word) \<notin> tp_id ` set (getTouchPoints
      (processEvent sdl_idle (SDL_FINGERDOWN 3 10 20) (InputManager_new :: unit InputManager)))
   \<and> getTouchPoints (processEvent sdl_idle (SDL_FINGERDOWN 5 1 2)
      (processEvent sdl_idle (SDL_FINGERDOWN 3 10 20) (InputManager_new :: unit InputManager)))
     = [\<lparr>tp_id = 3, tp_x = 10, tp_y = 20, tp_pressed = True\<rparr>,
        \<lparr>tp_id = 5, tp_x = 1, tp_y = 2, tp_pressed = True\<rparr>]
   \<and> getTouchPoints (processEvent sdl_idle (SDL_FINGERMOTION 3 12 22)
      (processEvent sdl_idle (SDL_FINGERDOWN 3 10 20) (InputManager_new :: unit InputManager)))
     = [\<lparr>tp_id = 3, tp_x = 12, tp_y = 22, tp_pressed = True\<rparr>]"
proof -
  let ?m = "processEvent sdl_idle (SDL_FINGERDOWN 3 10 20) (InputManager_new :: unit InputManager)"
  have g: "getTouchPoints ?m = [\<lparr>tp_id = 3, tp_x = 10, tp_y = 20, tp_pressed = True\<rparr>]"
    by (simp add: getTouchPoints_def InputManager_new_def Let_def)
  have d: "distinct (map tp_id (getTouchPoints ?m))" unfolding g by simp
  have n: "(ucast (5 :: 64 word) :: 32 word) \<notin> tp_id ` set (getTouchPoints ?m)"
    unfolding g by simp
  note t = C5_touch_points [where 'g = unit]
  from t d have 1: "distinct (map tp_id (getTouchPoints (processEvent sdl_idle (SDL_FINGERDOWN 5 1 2) ?m)))"
    by blast
  from t n have "getTouchPoints (processEvent sdl_idle (SDL_FINGERDOWN 5 1 2) ?m) =
      getTouchPoints ?m @ [\<lparr>tp_id = ucast (5 :: 64 word), tp_x = 1, tp_y = 2, tp_pressed = True\<rparr>]"
    by blast
  then have 2: "getTouchPoints (processEvent sdl_idle (SDL_FINGERDOWN 5 1 2) ?m) =
      [\<lparr>tp_id = 3, tp_x = 10, tp_y = 20, tp_pressed = True\<rparr>,
       \<lparr>tp_id = 5, tp_x = 1, tp_y = 2, tp_pressed = True\<rparr>]"
    unfolding g by simp
  from t d have "getTouchPoints (processEvent sdl_idle (SDL_FINGERMOTION 3 12 22) ?m) =
      map (\<lambda>t. if tp_id t = ucast (3 :: 64 word) then t\<lparr>tp_x := 12, tp_y := 22\<rparr> else t)
        (getTouchPoints ?m)"
    by blast
  then have 3: "getTouchPoints (processEvent sdl_idle (SDL_FINGERMOTION 3 12 22) ?m) =
      [\<lparr>tp_id = 3, tp_x = 12, tp_y = 22, tp_pressed = True\<rparr>]"
    unfolding g by simp
  from d 1 n 2 3 show ?thesis by blast
qed

subsection \<open>What one update computes\<close>

lemma updateKeyboardState_loop_set:
  "m_currentKeyboardState m = sdl_keys \<Longrightarrow>
   updateKeyboardState_loop p is m =
     Inr (m\<lparr>m_previousKeyState := previous_keys_loop p is (m_previousKeyState m)\<rparr>)"
  by (induction "is" arbitrary: m) (simp_all add: deref_keys_def Let_def)

lemma updateKeyboardState_set:
  "m_currentKeyboardState m = sdl_keys \<Longrightarrow>
   updateKeyboardState p m =
     Inr (m\<lparr>m_previousKeyState :=
              previous_keys_loop p [0 ..< SDL_NUM_SCANCODES] (m_previousKeyState m)\<rparr>)"
  by (simp add: updateKeyboardState_def updateKeyboardState_loop_set)

lemma process_key_commands_set:
  "m_currentKeyboardState m = sdl_keys \<Longrightarrow>
   \<exists>a. process_key_commands p dt tbl m =
     Inr (m\<lparr>m_activeInputMethod := a\<rparr>,
          map (\<lambda>(k, c). (KeyboardKey k, c, dt))
            (filter (\<lambda>(k, c). keyboard_state p (scancode_from_key p k) \<noteq> 0) tbl))"
proof (induction tbl arbitrary: m)
  case Nil
  have "m = m\<lparr>m_activeInputMethod := m_activeInputMethod m\<rparr>" by simp
  then show ?case by (metis (no_types) process_key_commands.simps(1) list.simps(8) filter.simps(1))
next
  case (Cons kc tbl)
  obtain k c where kc: "kc = (k, c)" by (cases kc)
  show ?case
  proof (cases "keyboard_state p (scancode_from_key p k) \<noteq> 0")
    case True
    have "m_currentKeyboardState (m\<lparr>m_activeInputMethod := KEYBOARD\<rparr>) = sdl_keys"
      using Cons.prems by simp
    from Cons.IH [OF this] obtain a where
      "process_key_commands p dt tbl (m\<lparr>m_activeInputMethod := KEYBOARD\<rparr>) =
         Inr (m\<lparr>m_activeInputMethod := KEYBOARD\<rparr>\<lparr>m_activeInputMethod := a\<rparr>,
          map (\<lambda>(k, c). (KeyboardKey k, c, dt))
            (filter (\<lambda>(k, c). keyboard_state p (scancode_from_key p k) \<noteq> 0) tbl))" by blast
    then show ?thesis using True Cons.prems kc
      by (auto simp: isKeyDown_def deref_keys_def Let_def)
  next
    case False
    from Cons.IH [OF Cons.prems] show ?thesis using False Cons.prems kc
      by (auto simp: isKeyDown_def deref_keys_def Let_def)
  qed
qed

lemma process_mouse_commands_eq:
  "\<exists>a. process_mouse_commands dt tbl m =
     (m\<lparr>m_activeInputMethod := a\<rparr>,
      map (\<lambda>(b, c). (MouseButton b, c, dt)) (filter (\<lambda>(b, c). isMouseButtonDown m b) tbl))"
proof (induction tbl arbitrary: m)
  case Nil
  have "m = m\<lparr>m_activeInputMethod := m_activeInputMethod m\<rparr>" by simp
  then show ?case by (metis (no_types) process_mouse_commands.simps(1) list.simps(8) filter.simps(1))
next
  case (Cons bc tbl)
  obtain b c where bc: "bc = (b, c)" by (cases bc)
  have e: "\<And>x. isMouseButtonDown (m\<lparr>m_activeInputMethod := MOUSE\<rparr>) x = isMouseButtonDown m x"
    by (simp add: isMouseButtonDown_def)
  show ?case
  proof (cases "isMouseButtonDown m b")
    case True
    from Cons.IH [of "m\<lparr>m_activeInputMethod := MOUSE\<rparr>"] obtain a where
      "process_mouse_commands dt tbl (m\<lparr>m_activeInputMethod := MOUSE\<rparr>) =
         (m\<lparr>m_activeInputMethod := MOUSE\<rparr>\<lparr>m_activeInputMethod := a\<rparr>,
          map (\<lambda>(b, c). (MouseButton b, c, dt))
            (filter (\<lambda>(b, c). isMouseButtonDown (m\<lparr>m_activeInputMethod := MOUSE\<rparr>) b) tbl))" by blast
    then show ?thesis using True bc by (auto simp: e)
  next
    case False
    from Cons.IH [of m] show ?thesis using False bc by auto
  qed
qed

lemma process_button_commands_eq:
  "\<exists>a. process_button_commands dt tbl m =
     (m\<lparr>m_activeInputMethod := a\<rparr>,
      map (\<lambda>(b, c). (GamepadButtonId b, c, dt)) (filter (\<lambda>(b, c). isGamepadButtonDown m b) tbl))"
proof (induction tbl arbitrary: m)
  case Nil
  have "m = m\<lparr>m_activeInputMethod := m_activeInputMethod m\<rparr>" by simp
  then show ?case by (metis (no_types) process_button_commands.simps(1) list.simps(8) filter.simps(1))
next
  case (Cons bc tbl)
  obtain b c where bc: "bc = (b, c)" by (cases bc)
  have e: "\<And>x. isGamepadButtonDown (m\<lparr>m_activeInputMethod := GAMEPAD\<rparr>) x = isGamepadButtonDown m x"
    by (simp add: isGamepadButtonDown_def)
  show ?case
  proof (cases "isGamepadButtonDown m b")
    case True
    from Cons.IH [of "m\<lparr>m_activeInputMethod := GAMEPAD\<rparr>"] obtain a where
      "process_button_commands dt tbl (m\<lparr>m_activeInputMethod := GAMEPAD\<rparr>) =
         (m\<lparr>m_activeInputMethod := GAMEPAD\<rparr>\<lparr>m_activeInputMethod := a\<rparr>,
          map (\<lambda>(b, c). (GamepadButtonId b, c, dt))
            (filter (\<lambda>(b, c). isGamepadButtonDown (m\<lparr>m_activeInputMethod := GAMEPAD\<rparr>) b) tbl))" by blast
    then show ?thesis using True bc by (auto simp: e)
  next
    case False
    from Cons.IH [of m] show ?thesis using False bc by auto
  qed
qed

lemma process_axis_commands_eq:
  "\<exists>a. process_axis_commands tbl m =
     (m\<lparr>m_activeInputMethod := a\<rparr>,
      map (\<lambda>(ax, c, dz). (GamepadAxisId ax, c, getGamepadAxisValue m ax))
        (filter (\<lambda>(ax, c, dz). \<bar>getGamepadAxisValue m ax\<bar> > dz) tbl))"
proof (induction tbl arbitrary: m)
  case Nil
  have "m = m\<lparr>m_activeInputMethod := m_activeInputMethod m\<rparr>" by simp
  then show ?case by (metis (no_types) process_axis_commands.simps(1) list.simps(8) filter.simps(1))
next
  case (Cons acd tbl)
  obtain ax c dz where acd: "acd = (ax, c, dz)" by (cases acd)
  have e: "\<And>x. getGamepadAxisValue (m\<lparr>m_activeInputMethod := GAMEPAD\<rparr>) x = getGamepadAxisValue m x"
    by (simp add: getGamepadAxisValue_def)
  show ?case
  proof (cases "\<bar>getGamepadAxisValue m ax\<bar> > dz")
    case True
    from Cons.IH [of "m\<lparr>m_activeInputMethod := GAMEPAD\<rparr>"] obtain a where
      "process_axis_commands tbl (m\<lparr>m_activeInputMethod := GAMEPAD\<rparr>) =
         (m\<lparr>m_activeInputMethod := GAMEPAD\<rparr>\<lparr>m_activeInputMethod := a\<rparr>,
          map (\<lambda>(ax, c, dz). (GamepadAxisId ax, c, getGamepadAxisValue (m\<lparr>m_activeInputMethod := GAMEPAD\<rparr>) ax))
            (filter (\<lambda>(ax, c, dz). \<bar>getGamepadAxisValue (m\<lparr>m_activeInputMethod := GAMEPAD\<rparr>) ax\<bar> > dz) tbl))" by blast
    then show ?thesis using True acd by (auto simp: e Let_def)
  next
    case False
    from Cons.IH [of m] show ?thesis using False acd by (auto simp: Let_def)
  qed
qed


lemma active_irrelevant [simp]:
  "isMouseButtonDown (m\<lparr>m_activeInputMethod := a\<rparr>) b = isMouseButtonDown m b"
  "isGamepadButtonDown (m\<lparr>m_activeInputMethod := a\<rparr>) gb = isGamepadButtonDown m gb"
  "getGamepadAxisValue (m\<lparr>m_activeInputMethod := a\<rparr>) ax = getGamepadAxisValue m ax"
  "isTouchActive (m\<lparr>m_activeInputMethod := a\<rparr>) = isTouchActive m"
  by (simp_all add: isMouseButtonDown_def isGamepadButtonDown_def getGamepadAxisValue_def
      isTouchActive_def)

lemma calls_active_irrelevant [simp]:
  "key_calls p dt (m\<lparr>m_activeInputMethod := a\<rparr>) = key_calls p dt m"
  "mouse_calls dt (m\<lparr>m_activeInputMethod := a\<rparr>) = mouse_calls dt m"
  "button_calls dt (m\<lparr>m_activeInputMethod := a\<rparr>) = button_calls dt m"
  "axis_calls (m\<lparr>m_activeInputMethod := a\<rparr>) = axis_calls m"
  "touch_calls dt (m\<lparr>m_activeInputMethod := a\<rparr>) = touch_calls dt m"
  by (simp_all add: key_calls_def mouse_calls_def button_calls_def axis_calls_def
      touch_calls_def process_touch_command_def split: option.splits)

lemma process_touch_command_eq:
  "\<exists>a. process_touch_command dt m = (m\<lparr>m_activeInputMethod := a\<rparr>, touch_calls dt m)"
proof -
  have e: "m = m\<lparr>m_activeInputMethod := m_activeInputMethod m\<rparr>" by simp
  show ?thesis
  proof (cases "m_touchCommand m")
    case None
    then have "process_touch_command dt m = (m, touch_calls dt m)"
      by (simp add: process_touch_command_def touch_calls_def)
    then show ?thesis using e by metis
  next
    case (Some c)
    show ?thesis
    proof (cases "isTouchActive m")
      case True
      then show ?thesis using Some
        by (auto simp: process_touch_command_def touch_calls_def)
    next
      case False
      then have "process_touch_command dt m = (m, touch_calls dt m)" using Some
        by (simp add: process_touch_command_def touch_calls_def)
      then show ?thesis using e by metis
    qed
  qed
qed

lemma update_initialised:
  assumes k: "m_currentKeyboardState m = sdl_keys"
  shows "\<exists>a. update p dt m =
           Inr ((refreshed p m)\<lparr>m_activeInputMethod := a\<rparr>, dispatch_calls p dt (refreshed p m))"
proof -
  let ?m3 = "refreshed p m"
  have k3: "m_currentKeyboardState ?m3 = sdl_keys"
    using k by (simp add: refreshed_def updateGamepadState_def updateMouseState_def Let_def
        split: option.splits)
  from process_key_commands_set [OF k3, of p dt "m_keyCommands ?m3"] obtain a1 where
    s1: "process_key_commands p dt (m_keyCommands ?m3) ?m3 =
          Inr (?m3\<lparr>m_activeInputMethod := a1\<rparr>, key_calls p dt ?m3)"
    unfolding key_calls_def by blast
  let ?m4 = "?m3\<lparr>m_activeInputMethod := a1\<rparr>"
  from process_mouse_commands_eq [of dt "m_mouseCommands ?m4" ?m4] obtain a2 where
    s2: "process_mouse_commands dt (m_mouseCommands ?m4) ?m4 =
          (?m3\<lparr>m_activeInputMethod := a2\<rparr>, mouse_calls dt ?m3)"
    unfolding mouse_calls_def by auto
  let ?m5 = "?m3\<lparr>m_activeInputMethod := a2\<rparr>"
  from process_button_commands_eq [of dt "m_gamepadButtonCommands ?m5" ?m5] obtain a3 where
    s3: "process_button_commands dt (m_gamepadButtonCommands ?m5) ?m5 =
          (?m3\<lparr>m_activeInputMethod := a3\<rparr>, button_calls dt ?m3)"
    unfolding button_calls_def by auto
  let ?m6 = "?m3\<lparr>m_activeInputMethod := a3\<rparr>"
  from process_axis_commands_eq [of "m_gamepadAxisCommands ?m6" ?m6] obtain a4 where
    s4: "process_axis_commands (m_gamepadAxisCommands ?m6) ?m6 =
          (?m3\<lparr>m_activeInputMethod := a4\<rparr>, axis_calls ?m3)"
    unfolding axis_calls_def by auto
  let ?m7 = "?m3\<lparr>m_activeInputMethod := a4\<rparr>"
  from process_touch_command_eq [of dt ?m7] obtain a5 where
    s5: "process_touch_command dt ?m7 = (?m3\<lparr>m_activeInputMethod := a5\<rparr>, touch_calls dt ?m3)"
    by auto
  have "update p dt m =
      Inr (?m3\<lparr>m_activeInputMethod := a5\<rparr>, dispatch_calls p dt ?m3)"
    unfolding update_def updateKeyboardState_set [OF k] dispatch_calls_def
    using s1 s2 s3 s4 s5 by (simp add: refreshed_def Let_def)
  then show ?thesis by blast
qed

lemma filter_key_alist:
  "distinct (map fst tbl) \<Longrightarrow> map_of tbl k = Some v \<Longrightarrow>
   filter (\<lambda>kv. fst kv = k) tbl = [(k, v)]"
proof (induction tbl)
  case Nil
  then show ?case by simp
next
  case (Cons kv tbl)
  show ?case
  proof (cases "fst kv = k")
    case True
    then have "k \<notin> fst ` set tbl" using Cons.prems by auto
    then have "filter (\<lambda>kv. fst kv = k) tbl = []" by (auto simp: filter_empty_conv)
    then show ?thesis using True Cons.prems by (cases kv) auto
  next
    case False
    then show ?thesis using Cons by (cases kv) auto
  qed
qed

lemma filter_bound_calls:
  assumes inj: "\<And>a b. tag a = tag b \<Longrightarrow> a = b"
    and g: "\<And>kv. fst (g kv) = tag (fst kv)"
    and dm: "distinct (map fst tbl)" "map_of tbl k = Some v"
  shows "filter (\<lambda>call. fst call = tag k) (map g (filter Q tbl))
         = (if Q (k, v) then [g (k, v)] else [])"
proof -
  have c: "(\<lambda>call. fst call = tag k) \<circ> g = (\<lambda>kv. fst kv = k)"
    using inj g by (auto simp: fun_eq_iff)
  have "filter (\<lambda>call. fst call = tag k) (map g (filter Q tbl))
      = map g (filter Q (filter (\<lambda>kv. fst kv = k) tbl))"
    by (simp add: filter_map c conj_commute)
  then show ?thesis using filter_key_alist [OF dm] by simp
qed

lemma filter_other_calls:
  assumes "\<And>kv. fst (g kv) \<noteq> ident"
  shows "filter (\<lambda>call. fst call = ident) (map g tbl) = []"
  using assms by (simp add: filter_empty_conv)

lemma refreshed_tables [simp]:
  "m_keyCommands (refreshed p m) = m_keyCommands m"
  "m_mouseCommands (refreshed p m) = m_mouseCommands m"
  "m_gamepadButtonCommands (refreshed p m) = m_gamepadButtonCommands m"
  "m_gamepadAxisCommands (refreshed p m) = m_gamepadAxisCommands m"
  "m_touchCommand (refreshed p m) = m_touchCommand m"
  "m_touchPoints (refreshed p m) = m_touchPoints m"
  "m_currentKeyboardState (refreshed p m) = m_currentKeyboardState m"
  "m_gameController (refreshed p m) = m_gameController m"
  "m_gameControllerIndex (refreshed p m) = m_gameControllerIndex m"
  by (simp_all add: refreshed_def updateGamepadState_def updateMouseState_def Let_def
      split: option.splits)

lemma touch_calls_tag: "call \<in> set (touch_calls dt m) \<Longrightarrow> fst call = TouchGesture"
  by (auto simp: touch_calls_def process_touch_command_def split: option.splits if_splits)

lemma calls_of_key:
  assumes "tables_ok m" "map_of (m_keyCommands m) key = Some command"
  shows "calls_of (KeyboardKey key) (dispatch_calls p dt m) =
           (if keyboard_state p (scancode_from_key p key) \<noteq> 0
            then [(KeyboardKey key, command, dt)] else [])"
proof -
  have d: "distinct (map fst (m_keyCommands m))" using assms(1) by (simp add: tables_ok_def)
  have t: "filter (\<lambda>call. fst call = KeyboardKey key) (touch_calls dt m) = []"
    using touch_calls_tag [of _ dt m] by (auto simp: filter_empty_conv)
  have 1: "filter (\<lambda>call. fst call = KeyboardKey key) (key_calls p dt m) =
      (if keyboard_state p (scancode_from_key p key) \<noteq> 0
            then [(KeyboardKey key, command, dt)] else [])"
    unfolding key_calls_def
    by (subst filter_bound_calls [where tag = KeyboardKey and k = key and v = command])
      (use d assms(2) in \<open>auto simp: split_beta\<close>)
  have 2: "filter (\<lambda>call. fst call = KeyboardKey key) (mouse_calls dt m) = []"
    unfolding mouse_calls_def by (rule filter_other_calls) (simp add: split_beta)
  have 3: "filter (\<lambda>call. fst call = KeyboardKey key) (button_calls dt m) = []"
    unfolding button_calls_def by (rule filter_other_calls) (simp add: split_beta)
  have 4: "filter (\<lambda>call. fst call = KeyboardKey key) (axis_calls m) = []"
    unfolding axis_calls_def by (rule filter_other_calls) (simp add: split_beta)
  show ?thesis unfolding calls_of_def dispatch_calls_def using 1 2 3 4 t by simp
qed

lemma calls_of_mouse:
  assumes "tables_ok m" "map_of (m_mouseCommands m) button = Some command"
  shows "calls_of (MouseButton button) (dispatch_calls p dt m) =
           (if isMouseButtonDown m button then [(MouseButton button, command, dt)] else [])"
proof -
  have d: "distinct (map fst (m_mouseCommands m))" using assms(1) by (simp add: tables_ok_def)
  have t: "filter (\<lambda>call. fst call = MouseButton button) (touch_calls dt m) = []"
    using touch_calls_tag [of _ dt m] by (auto simp: filter_empty_conv)
  have 1: "filter (\<lambda>call. fst call = MouseButton button) (key_calls p dt m) = []"
    unfolding key_calls_def by (rule filter_other_calls) (simp add: split_beta)
  have 2: "filter (\<lambda>call. fst call = MouseButton button) (mouse_calls dt m) =
      (if isMouseButtonDown m button then [(MouseButton button, command, dt)] else [])"
    unfolding mouse_calls_def
    by (subst filter_bound_calls [where tag = MouseButton and k = button and v = command])
      (use d assms(2) in \<open>auto simp: split_beta\<close>)
  have 3: "filter (\<lambda>call. fst call = MouseButton button) (button_calls dt m) = []"
    unfolding button_calls_def by (rule filter_other_calls) (simp add: split_beta)
  have 4: "filter (\<lambda>call. fst call = MouseButton button) (axis_calls m) = []"
    unfolding axis_calls_def by (rule filter_other_calls) (simp add: split_beta)
  show ?thesis unfolding calls_of_def dispatch_calls_def using 1 2 3 4 t by simp
qed

lemma calls_of_button:
  assumes "tables_ok m" "map_of (m_gamepadButtonCommands m) button = Some command"
  shows "calls_of (GamepadButtonId button) (dispatch_calls p dt m) =
           (if isGamepadButtonDown m button then [(GamepadButtonId button, command, dt)] else [])"
proof -
  have d: "distinct (map fst (m_gamepadButtonCommands m))"
    using assms(1) by (simp add: tables_ok_def)
  have t: "filter (\<lambda>call. fst call = GamepadButtonId button) (touch_calls dt m) = []"
    using touch_calls_tag [of _ dt m] by (auto simp: filter_empty_conv)
  have 1: "filter (\<lambda>call. fst call = GamepadButtonId button) (key_calls p dt m) = []"
    unfolding key_calls_def by (rule filter_other_calls) (simp add: split_beta)
  have 2: "filter (\<lambda>call. fst call = GamepadButtonId button) (mouse_calls dt m) = []"
    unfolding mouse_calls_def by (rule filter_other_calls) (simp add: split_beta)
  have 3: "filter (\<lambda>call. fst call = GamepadButtonId button) (button_calls dt m) =
      (if isGamepadButtonDown m button then [(GamepadButtonId button, command, dt)] else [])"
    unfolding button_calls_def
    by (subst filter_bound_calls [where tag = GamepadButtonId and k = button and v = command])
      (use d assms(2) in \<open>auto simp: split_beta\<close>)
  have 4: "filter (\<lambda>call. fst call = GamepadButtonId button) (axis_calls m) = []"
    unfolding axis_calls_def by (rule filter_other_calls) (simp add: split_beta)
  show ?thesis unfolding calls_of_def dispatch_calls_def using 1 2 3 4 t by simp
qed

lemma calls_of_axis:
  assumes "tables_ok m" "map_of (m_gamepadAxisCommands m) axis = Some (command, deadzone)"
  shows "calls_of (GamepadAxisId axis) (dispatch_calls p dt m) =
           (if \<bar>getGamepadAxisValue m axis\<bar> > deadzone
            then [(GamepadAxisId axis, command, getGamepadAxisValue m axis)] else [])"
proof -
  have d: "distinct (map fst (m_gamepadAxisCommands m))"
    using assms(1) by (simp add: tables_ok_def)
  have t: "filter (\<lambda>call. fst call = GamepadAxisId axis) (touch_calls dt m) = []"
    using touch_calls_tag [of _ dt m] by (auto simp: filter_empty_conv)
  have 1: "filter (\<lambda>call. fst call = GamepadAxisId axis) (key_calls p dt m) = []"
    unfolding key_calls_def by (rule filter_other_calls) (simp add: split_beta)
  have 2: "filter (\<lambda>call. fst call = GamepadAxisId axis) (mouse_calls dt m) = []"
    unfolding mouse_calls_def by (rule filter_other_calls) (simp add: split_beta)
  have 3: "filter (\<lambda>call. fst call = GamepadAxisId axis) (button_calls dt m) = []"
    unfolding button_calls_def by (rule filter_other_calls) (simp add: split_beta)
  have 4: "filter (\<lambda>call. fst call = GamepadAxisId axis) (axis_calls m) =
      (if \<bar>getGamepadAxisValue m axis\<bar> > deadzone
       then [(GamepadAxisId axis, command, getGamepadAxisValue m axis)] else [])"
    unfolding axis_calls_def
    by (subst filter_bound_calls [where tag = GamepadAxisId and k = axis and v = "(command, deadzone)"])
      (use d assms(2) in \<open>auto simp: split_beta\<close>)
  show ?thesis unfolding calls_of_def dispatch_calls_def using 1 2 3 4 t by simp
qed

subsection \<open>Dispatch of the digital bindings\<close>

lemma isKeyDown_set:
  "m_currentKeyboardState m = sdl_keys \<Longrightarrow>
   isKeyDown p m key = Inr (keyboard_state p (scancode_from_key p key) \<noteq> 0)"
  by (simp add: isKeyDown_def deref_keys_def Let_def)

lemma tables_ok_refreshed [simp]: "tables_ok ((refreshed p m)\<lparr>m_activeInputMethod := a\<rparr>) = tables_ok m"
  by (simp add: tables_ok_def)

lemma dispatch_calls_active [simp]:
  "dispatch_calls p dt (m\<lparr>m_activeInputMethod := a\<rparr>) = dispatch_calls p dt m"
  by (simp add: dispatch_calls_def)

lemma button_indices:
  "[0 ..< SDL_CONTROLLER_BUTTON_MAX] = [0,1,2,3,4,5,6,7,8,9,10,11,12,13,14,15,16,17,18,19,20]"
  unfolding SDL_CONTROLLER_BUTTON_MAX_def by code_simp

lemma axis_indices: "[0 ..< SDL_CONTROLLER_AXIS_MAX] = [0,1,2,3,4,5]"
  unfolding SDL_CONTROLLER_AXIS_MAX_def by code_simp

lemma update_buttons_loop_A:
  "update_buttons_loop p h [0 ..< SDL_CONTROLLER_BUTTON_MAX] st Button_A
     = Some (game_controller_button p h 0 \<noteq> 0)"
  by (simp add: button_indices sdlButtonToGamepadButton_def Let_def)

lemma update_axes_loop_LEFTX:
  "update_axes_loop p h [0 ..< SDL_CONTROLLER_AXIS_MAX] st Axis_LEFTX
     = Some (real_of_int (sint (game_controller_axis p h 0)) / 32767)"
  by (simp add: axis_indices sdlAxisToGamepadAxis_def Let_def)

lemma isGamepadButtonDown_refreshed_A:
  "m_gameController m = Some h \<Longrightarrow>
   isGamepadButtonDown (refreshed p m) Button_A = (game_controller_button p h 0 \<noteq> 0)"
  by (simp add: isGamepadButtonDown_def find_or_false_def refreshed_def updateGamepadState_def
      updateMouseState_def Let_def update_buttons_loop_A)




subsection \<open>Rebinding\<close>

lemma tables_ok_bind:
  "tables_ok m \<Longrightarrow> tables_ok (bindKeyCommand key c m)"
  "tables_ok m \<Longrightarrow> tables_ok (bindMouseCommand b c m)"
  "tables_ok m \<Longrightarrow> tables_ok (bindGamepadButtonCommand gb c m)"
  "tables_ok m \<Longrightarrow> tables_ok (bindGamepadAxisCommand ax c d m)"
  "tables_ok m \<Longrightarrow> tables_ok (bindTouchCommand c m)"
  by (simp_all add: tables_ok_def bindKeyCommand_def bindMouseCommand_def
      bindGamepadButtonCommand_def bindGamepadAxisCommand_def bindTouchCommand_def distinct_update)

lemma tables_ok_new: "tables_ok InputManager_new"
  by (simp add: tables_ok_def InputManager_new_def)

lemma bind_keeps_pointer:
  "m_currentKeyboardState (bindKeyCommand key c m) = m_currentKeyboardState m"
  "m_currentKeyboardState (bindMouseCommand b c m) = m_currentKeyboardState m"
  "m_currentKeyboardState (bindGamepadButtonCommand gb c m) = m_currentKeyboardState m"
  "m_currentKeyboardState (bindGamepadAxisCommand ax c d m) = m_currentKeyboardState m"
  "m_currentKeyboardState (bindTouchCommand c m) = m_currentKeyboardState m"
  by (simp_all add: bindKeyCommand_def bindMouseCommand_def
      bindGamepadButtonCommand_def bindGamepadAxisCommand_def bindTouchCommand_def)

lemma bound_once:
  "distinct (map fst tbl) \<Longrightarrow>
   filter (\<lambda>kv. fst kv = k) (AList.update k v tbl) = [(k, v)]"
  by (rule filter_key_alist) (simp_all add: distinct_update update_conv')

lemma calls_of_touch:
  "calls_of TouchGesture (dispatch_calls p dt m) =
     (case m_touchCommand m of
        Some command \<Rightarrow> if m_touchPoints m \<noteq> [] then [(TouchGesture, command, dt)] else []
      | None \<Rightarrow> [])"
proof -
  have 1: "filter (\<lambda>call. fst call = TouchGesture) (key_calls p dt m) = []"
    unfolding key_calls_def by (rule filter_other_calls) (simp add: split_beta)
  have 2: "filter (\<lambda>call. fst call = TouchGesture) (mouse_calls dt m) = []"
    unfolding mouse_calls_def by (rule filter_other_calls) (simp add: split_beta)
  have 3: "filter (\<lambda>call. fst call = TouchGesture) (button_calls dt m) = []"
    unfolding button_calls_def by (rule filter_other_calls) (simp add: split_beta)
  have 4: "filter (\<lambda>call. fst call = TouchGesture) (axis_calls m) = []"
    unfolding axis_calls_def by (rule filter_other_calls) (simp add: split_beta)
  have 5: "filter (\<lambda>call. fst call = TouchGesture) (touch_calls dt m) =
     (case m_touchCommand m of
        Some command \<Rightarrow> if m_touchPoints m \<noteq> [] then [(TouchGesture, command, dt)] else []
      | None \<Rightarrow> [])"
    by (simp add: touch_calls_def process_touch_command_def isTouchActive_def split: option.splits)
  show ?thesis unfolding calls_of_def dispatch_calls_def using 1 2 3 4 5 by simp
qed

lemma update_calls_exist:
  assumes k: "m_currentKeyboardState m = sdl_keys"
  obtains m' where "update p dt m = Inr (m', dispatch_calls p dt (refreshed p m))"
    "isKeyDown p m' = (\<lambda>key. Inr (keyboard_state p (scancode_from_key p key) \<noteq> 0))"
    "isMouseButtonDown m' = isMouseButtonDown (refreshed p m)"
    "isGamepadButtonDown m' = isGamepadButtonDown (refreshed p m)"
    "getGamepadAxisValue m' = getGamepadAxisValue (refreshed p m)"
    "isTouchActive m' = isTouchActive m"
proof -
  from update_initialised [OF k, of p dt] obtain a where
    u: "update p dt m = Inr ((refreshed p m)\<lparr>m_activeInputMethod := a\<rparr>,
          dispatch_calls p dt (refreshed p m))" by blast
  have "m_currentKeyboardState ((refreshed p m)\<lparr>m_activeInputMethod := a\<rparr>) = sdl_keys"
    using k by simp
  then have "isKeyDown p ((refreshed p m)\<lparr>m_activeInputMethod := a\<rparr>) =
      (\<lambda>key. Inr (keyboard_state p (scancode_from_key p key) \<noteq> 0))"
    by (simp add: fun_eq_iff isKeyDown_set)
  moreover have "isTouchActive ((refreshed p m)\<lparr>m_activeInputMethod := a\<rparr>) = isTouchActive m"
    by (simp add: isTouchActive_def)
  ultimately show ?thesis using u that [of "(refreshed p m)\<lparr>m_activeInputMethod := a\<rparr>"]
    by (simp add: fun_eq_iff)
qed

text \<open>
  C8. A second bind for the same identifier overwrites the first: the manager after the
  two binds is the manager after the second bind alone (so binding the same command twice
  changes nothing), the table holds the second command (and deadzone) for the identifier
  and exactly one entry for it, and in the next update of an initialised manager the calls
  made for the identifier are calls of the second command only.
\<close>

theorem C8_rebind_overwrites:
  "bindKeyCommand key cnew (bindKeyCommand key cold m) = bindKeyCommand key cnew m
   \<and> bindMouseCommand b cnew (bindMouseCommand b cold m) = bindMouseCommand b cnew m
   \<and> bindGamepadButtonCommand gb cnew (bindGamepadButtonCommand gb cold m)
       = bindGamepadButtonCommand gb cnew m
   \<and> bindGamepadAxisCommand ax cnew dnew (bindGamepadAxisCommand ax cold dold m)
       = bindGamepadAxisCommand ax cnew dnew m
   \<and> bindTouchCommand cnew (bindTouchCommand cold m) = bindTouchCommand cnew m
   \<and> map_of (m_keyCommands (bindKeyCommand key cnew (bindKeyCommand key cold m))) key = Some cnew
   \<and> map_of (m_mouseCommands (bindMouseCommand b cnew (bindMouseCommand b cold m))) b = Some cnew
   \<and> map_of (m_gamepadButtonCommands
         (bindGamepadButtonCommand gb cnew (bindGamepadButtonCommand gb cold m))) gb = Some cnew
   \<and> map_of (m_gamepadAxisCommands
         (bindGamepadAxisCommand ax cnew dnew (bindGamepadAxisCommand ax cold dold m))) ax = Some (cnew, dnew)
   \<and> m_touchCommand (bindTouchCommand cnew (bindTouchCommand cold m)) = Some cnew
   \<and> (tables_ok m \<longrightarrow>
        filter (\<lambda>kv. fst kv = key) (m_keyCommands (bindKeyCommand key cnew (bindKeyCommand key cold m)))
          = [(key, cnew)]
        \<and> filter (\<lambda>kv. fst kv = b) (m_mouseCommands (bindMouseCommand b cnew (bindMouseCommand b cold m)))
          = [(b, cnew)]
        \<and> filter (\<lambda>kv. fst kv = gb) (m_gamepadButtonCommands
            (bindGamepadButtonCommand gb cnew (bindGamepadButtonCommand gb cold m))) = [(gb, cnew)]
        \<and> filter (\<lambda>kv. fst kv = ax) (m_gamepadAxisCommands
            (bindGamepadAxisCommand ax cnew dnew (bindGamepadAxisCommand ax cold dold m))) = [(ax, cnew, dnew)])
   \<and> (tables_ok m \<and> m_currentKeyboardState m = sdl_keys \<longrightarrow>
        (\<exists>m' calls. update p dt (bindKeyCommand key cnew (bindKeyCommand key cold m)) = Inr (m', calls)
           \<and> calls_of (KeyboardKey key) calls =
               (if isKeyDown p m' key = Inr True then [(KeyboardKey key, cnew, dt)] else []))
        \<and> (\<exists>m' calls. update p dt (bindMouseCommand b cnew (bindMouseCommand b cold m)) = Inr (m', calls)
           \<and> calls_of (MouseButton b) calls =
               (if isMouseButtonDown m' b then [(MouseButton b, cnew, dt)] else []))
        \<and> (\<exists>m' calls. update p dt (bindGamepadButtonCommand gb cnew
                (bindGamepadButtonCommand gb cold m)) = Inr (m', calls)
           \<and> calls_of (GamepadButtonId gb) calls =
               (if isGamepadButtonDown m' gb then [(GamepadButtonId gb, cnew, dt)] else []))
        \<and> (\<exists>m' calls. update p dt (bindGamepadAxisCommand ax cnew dnew
                (bindGamepadAxisCommand ax cold dold m)) = Inr (m', calls)
           \<and> calls_of (GamepadAxisId ax) calls =
               (if \<bar>getGamepadAxisValue m' ax\<bar> > dnew
                then [(GamepadAxisId ax, cnew, getGamepadAxisValue m' ax)] else []))
        \<and> (\<exists>m' calls. update p dt (bindTouchCommand cnew (bindTouchCommand cold m)) = Inr (m', calls)
           \<and> calls_of TouchGesture calls =
               (if isTouchActive m' then [(TouchGesture, cnew, dt)] else [])))"
proof -
  have e: "bindKeyCommand key cnew (bindKeyCommand key cold m) = bindKeyCommand key cnew m"
    "bindMouseCommand b cnew (bindMouseCommand b cold m) = bindMouseCommand b cnew m"
    "bindGamepadButtonCommand gb cnew (bindGamepadButtonCommand gb cold m)
       = bindGamepadButtonCommand gb cnew m"
    "bindGamepadAxisCommand ax cnew dnew (bindGamepadAxisCommand ax cold dold m)
       = bindGamepadAxisCommand ax cnew dnew m"
    "bindTouchCommand cnew (bindTouchCommand cold m) = bindTouchCommand cnew m"
    by (simp_all add: bindKeyCommand_def bindMouseCommand_def bindGamepadButtonCommand_def
        bindGamepadAxisCommand_def bindTouchCommand_def)
  have l: "map_of (m_keyCommands (bindKeyCommand key cnew m)) key = Some cnew"
    "map_of (m_mouseCommands (bindMouseCommand b cnew m)) b = Some cnew"
    "map_of (m_gamepadButtonCommands (bindGamepadButtonCommand gb cnew m)) gb = Some cnew"
    "map_of (m_gamepadAxisCommands (bindGamepadAxisCommand ax cnew dnew m)) ax = Some (cnew, dnew)"
    "m_touchCommand (bindTouchCommand cnew m) = Some cnew"
    by (simp_all add: bindKeyCommand_def bindMouseCommand_def bindGamepadButtonCommand_def
        bindGamepadAxisCommand_def bindTouchCommand_def update_conv')
  have o: "tables_ok m \<longrightarrow>
        filter (\<lambda>kv. fst kv = key) (m_keyCommands (bindKeyCommand key cnew m)) = [(key, cnew)]
        \<and> filter (\<lambda>kv. fst kv = b) (m_mouseCommands (bindMouseCommand b cnew m)) = [(b, cnew)]
        \<and> filter (\<lambda>kv. fst kv = gb) (m_gamepadButtonCommands (bindGamepadButtonCommand gb cnew m))
            = [(gb, cnew)]
        \<and> filter (\<lambda>kv. fst kv = ax) (m_gamepadAxisCommands (bindGamepadAxisCommand ax cnew dnew m))
            = [(ax, cnew, dnew)]"
    by (simp add: tables_ok_def bindKeyCommand_def bindMouseCommand_def
        bindGamepadButtonCommand_def bindGamepadAxisCommand_def bound_once)
  have u: "tables_ok m \<and> m_currentKeyboardState m = sdl_keys \<longrightarrow>
        (\<exists>m' calls. update p dt (bindKeyCommand key cnew m) = Inr (m', calls)
           \<and> calls_of (KeyboardKey key) calls =
               (if isKeyDown p m' key = Inr True then [(KeyboardKey key, cnew, dt)] else []))
        \<and> (\<exists>m' calls. update p dt (bindMouseCommand b cnew m) = Inr (m', calls)
           \<and> calls_of (MouseButton b) calls =
               (if isMouseButtonDown m' b then [(MouseButton b, cnew, dt)] else []))
        \<and> (\<exists>m' calls. update p dt (bindGamepadButtonCommand gb cnew m) = Inr (m', calls)
           \<and> calls_of (GamepadButtonId gb) calls =
               (if isGamepadButtonDown m' gb then [(GamepadButtonId gb, cnew, dt)] else []))
        \<and> (\<exists>m' calls. update p dt (bindGamepadAxisCommand ax cnew dnew m) = Inr (m', calls)
           \<and> calls_of (GamepadAxisId ax) calls =
               (if \<bar>getGamepadAxisValue m' ax\<bar> > dnew
                then [(GamepadAxisId ax, cnew, getGamepadAxisValue m' ax)] else []))
        \<and> (\<exists>m' calls. update p dt (bindTouchCommand cnew m) = Inr (m', calls)
           \<and> calls_of TouchGesture calls =
               (if isTouchActive m' then [(TouchGesture, cnew, dt)] else []))"
  proof (intro impI conjI)
    assume a: "tables_ok m \<and> m_currentKeyboardState m = sdl_keys"
    let ?m = "bindKeyCommand key cnew m"
    have k: "m_currentKeyboardState ?m = sdl_keys" using a by (simp add: bind_keeps_pointer)
    have t: "tables_ok (refreshed p ?m)" using a tables_ok_bind(1) [of m key cnew]
      by (simp add: tables_ok_def)
    from update_calls_exist [OF k, of p dt] obtain m' where
      m': "update p dt ?m = Inr (m', dispatch_calls p dt (refreshed p ?m))"
      "isKeyDown p m' = (\<lambda>key. Inr (keyboard_state p (scancode_from_key p key) \<noteq> 0))"
      by blast
    have "calls_of (KeyboardKey key) (dispatch_calls p dt (refreshed p ?m)) =
        (if isKeyDown p m' key = Inr True then [(KeyboardKey key, cnew, dt)] else [])"
      using calls_of_key [OF t, of key cnew p dt] l(1) by (simp add: m'(2))
    then show "\<exists>m' calls. update p dt ?m = Inr (m', calls)
           \<and> calls_of (KeyboardKey key) calls =
               (if isKeyDown p m' key = Inr True then [(KeyboardKey key, cnew, dt)] else [])"
      using m'(1) by blast
  next
    assume a: "tables_ok m \<and> m_currentKeyboardState m = sdl_keys"
    let ?m = "bindMouseCommand b cnew m"
    have k: "m_currentKeyboardState ?m = sdl_keys" using a by (simp add: bind_keeps_pointer)
    have t: "tables_ok (refreshed p ?m)" using a tables_ok_bind(2) [of m b cnew]
      by (simp add: tables_ok_def)
    from update_calls_exist [OF k, of p dt] obtain m' where
      m': "update p dt ?m = Inr (m', dispatch_calls p dt (refreshed p ?m))"
      "isMouseButtonDown m' = isMouseButtonDown (refreshed p ?m)"
      by blast
    have "calls_of (MouseButton b) (dispatch_calls p dt (refreshed p ?m)) =
        (if isMouseButtonDown m' b then [(MouseButton b, cnew, dt)] else [])"
      using calls_of_mouse [OF t, of b cnew p dt] l(2) by (simp add: m'(2))
    then show "\<exists>m' calls. update p dt ?m = Inr (m', calls)
           \<and> calls_of (MouseButton b) calls =
               (if isMouseButtonDown m' b then [(MouseButton b, cnew, dt)] else [])"
      using m'(1) by blast
  next
    assume a: "tables_ok m \<and> m_currentKeyboardState m = sdl_keys"
    let ?m = "bindGamepadButtonCommand gb cnew m"
    have k: "m_currentKeyboardState ?m = sdl_keys" using a by (simp add: bind_keeps_pointer)
    have t: "tables_ok (refreshed p ?m)" using a tables_ok_bind(3) [of m gb cnew]
      by (simp add: tables_ok_def)
    from update_calls_exist [OF k, of p dt] obtain m' where
      m': "update p dt ?m = Inr (m', dispatch_calls p dt (refreshed p ?m))"
      "isGamepadButtonDown m' = isGamepadButtonDown (refreshed p ?m)"
      by blast
    have "calls_of (GamepadButtonId gb) (dispatch_calls p dt (refreshed p ?m)) =
        (if isGamepadButtonDown m' gb then [(GamepadButtonId gb, cnew, dt)] else [])"
      using calls_of_button [OF t, of gb cnew p dt] l(3) by (simp add: m'(2))
    then show "\<exists>m' calls. update p dt ?m = Inr (m', calls)
           \<and> calls_of (GamepadButtonId gb) calls =
               (if isGamepadButtonDown m' gb then [(GamepadButtonId gb, cnew, dt)] else [])"
      using m'(1) by blast
  next
    assume a: "tables_ok m \<and> m_currentKeyboardState m = sdl_keys"
    let ?m = "bindGamepadAxisCommand ax cnew dnew m"
    have k: "m_currentKeyboardState ?m = sdl_keys" using a by (simp add: bind_keeps_pointer)
    have t: "tables_ok (refreshed p ?m)" using a tables_ok_bind(4) [of m ax cnew dnew]
      by (simp add: tables_ok_def)
    from update_calls_exist [OF k, of p dt] obtain m' where
      m': "update p dt ?m = Inr (m', dispatch_calls p dt (refreshed p ?m))"
      "getGamepadAxisValue m' = getGamepadAxisValue (refreshed p ?m)"
      by blast
    have "calls_of (GamepadAxisId ax) (dispatch_calls p dt (refreshed p ?m)) =
        (if \<bar>getGamepadAxisValue m' ax\<bar> > dnew
         then [(GamepadAxisId ax, cnew, getGamepadAxisValue m' ax)] else [])"
      using calls_of_axis [OF t, of ax cnew dnew p dt] l(4) by (simp add: m'(2))
    then show "\<exists>m' calls. update p dt ?m = Inr (m', calls)
           \<and> calls_of (GamepadAxisId ax) calls =
               (if \<bar>getGamepadAxisValue m' ax\<bar> > dnew
                then [(GamepadAxisId ax, cnew, getGamepadAxisValue m' ax)] else [])"
      using m'(1) by blast
  next
    assume a: "tables_ok m \<and> m_currentKeyboardState m = sdl_keys"
    let ?m = "bindTouchCommand cnew m"
    have k: "m_currentKeyboardState ?m = sdl_keys" using a by (simp add: bind_keeps_pointer)
    from update_calls_exist [OF k, of p dt] obtain m' where
      m': "update p dt ?m = Inr (m', dispatch_calls p dt (refreshed p ?m))"
      "isTouchActive m' = isTouchActive ?m"
      by blast
    have "calls_of TouchGesture (dispatch_calls p dt (refreshed p ?m)) =
        (if isTouchActive m' then [(TouchGesture, cnew, dt)] else [])"
      using m'(2) by (simp add: calls_of_touch isTouchActive_def bindTouchCommand_def)
    then show "\<exists>m' calls. update p dt ?m = Inr (m', calls)
           \<and> calls_of TouchGesture calls =
               (if isTouchActive m' then [(TouchGesture, cnew, dt)] else [])"
      using m'(1) by blast
  qed
  show ?thesis unfolding e using l o u by blast
qed

lemma initialised_manager_fields:
  "m_currentKeyboardState initialised_manager = sdl_keys"
  "m_gameController initialised_manager = Some 7"
  "m_gameControllerIndex initialised_manager = 0"
  "m_keyCommands initialised_manager = []" "m_mouseCommands initialised_manager = []"
  "m_gamepadButtonCommands initialised_manager = []"
  "m_gamepadAxisCommands initialised_manager = []" "m_touchCommand initialised_manager = None"
  "m_touchPoints initialised_manager = []"
  "m_currentGamepadButtonState initialised_manager = Map.empty"
  "m_gamepadAxisValues initialised_manager = Map.empty"
  by (simp_all add: initialised_manager_def init_def pad_released_def
      sdl_pad_def sdl_idle_def InputManager_new_def SDL_GetKeyboardState_def joystick_indices_def
      Let_def)

lemma tables_ok_initialised: "tables_ok initialised_manager"
  by (simp add: tables_ok_def initialised_manager_fields)

lemma update_axes_loop_mapped:
  assumes "i < SDL_CONTROLLER_AXIS_MAX"
  shows "update_axes_loop p h [0 ..< SDL_CONTROLLER_AXIS_MAX] st (sdlAxisToGamepadAxis i)
     = Some (real_of_int (sint (game_controller_axis p h i)) / 32767)"
proof -
  have "i = 0 \<or> i = 1 \<or> i = 2 \<or> i = 3 \<or> i = 4 \<or> i = 5"
    using assms by (auto simp: SDL_CONTROLLER_AXIS_MAX_def)
  then show ?thesis
    by (elim disjE) (simp_all add: axis_indices sdlAxisToGamepadAxis_def Let_def)
qed

lemma getGamepadAxisValue_refreshed:
  "m_gameController m = Some h \<Longrightarrow> i < SDL_CONTROLLER_AXIS_MAX \<Longrightarrow>
   getGamepadAxisValue (refreshed p m) (sdlAxisToGamepadAxis i)
     = real_of_int (sint (game_controller_axis p h i)) / 32767"
  by (simp add: getGamepadAxisValue_def refreshed_def updateGamepadState_def
      updateMouseState_def Let_def update_axes_loop_mapped)

lemma getGamepadAxisValue_refreshed_LEFTX:
  "m_gameController m = Some h \<Longrightarrow>
   getGamepadAxisValue (refreshed p m) Axis_LEFTX
     = real_of_int (sint (game_controller_axis p h 0)) / 32767"
  using getGamepadAxisValue_refreshed [of m h 0 p]
  by (simp add: sdlAxisToGamepadAxis_def SDL_CONTROLLER_AXIS_MAX_def)

lemma refreshed_no_controller:
  "m_gameController m = None \<Longrightarrow>
   m_currentGamepadButtonState (refreshed p m) = m_currentGamepadButtonState m
   \<and> m_previousGamepadButtonState (refreshed p m) = m_previousGamepadButtonState m
   \<and> m_gamepadAxisValues (refreshed p m) = m_gamepadAxisValues m"
  by (simp add: refreshed_def updateGamepadState_def updateMouseState_def Let_def)

theorem C8_rebind_overwrites_witness:
  "tables_ok initialised_manager \<and> m_currentKeyboardState initialised_manager = sdl_keys
   \<and> filter (\<lambda>kv. fst kv = 97)
        (m_keyCommands (bindKeyCommand 97 add_two (bindKeyCommand 97 increment initialised_manager)))
      = [(97, add_two)]
   \<and> (\<exists>m'. update all_held 1
          (bindKeyCommand 97 add_two (bindKeyCommand 97 increment initialised_manager))
          = Inr (m', [(KeyboardKey 97, add_two, 1)]))
   \<and> (\<exists>m'. update (pad_stick 20000) 1
          (bindGamepadAxisCommand Axis_LEFTX add_two (1 / 2)
             (bindGamepadAxisCommand Axis_LEFTX increment (1 / 4) initialised_manager))
          = Inr (m', [(GamepadAxisId Axis_LEFTX, add_two, 20000 / 32767)]))"
proof -
  let ?M = "initialised_manager"
  have t: "tables_ok ?M" by (rule tables_ok_initialised)
  have k: "m_currentKeyboardState ?M = sdl_keys" by (rule initialised_manager_fields)
  note c = C8_rebind_overwrites [where cnew = add_two and cold = increment and m = ?M and dt = 1]
  have 1: "filter (\<lambda>kv. fst kv = 97)
        (m_keyCommands (bindKeyCommand 97 add_two (bindKeyCommand 97 increment ?M))) = [(97, add_two)]"
    using c [where key = 97] t by blast
  have e1: "bindKeyCommand 97 add_two (bindKeyCommand 97 increment ?M) = bindKeyCommand 97 add_two ?M"
    using c [where key = 97] by blast
  have e2: "bindGamepadAxisCommand Axis_LEFTX add_two (1 / 2)
             (bindGamepadAxisCommand Axis_LEFTX increment (1 / 4) ?M)
           = bindGamepadAxisCommand Axis_LEFTX add_two (1 / 2) ?M"
    using c [where ax = Axis_LEFTX and dnew = "1 / 2" and dold = "1 / 4"] by blast
  let ?K = "bindKeyCommand 97 add_two ?M"
  have kK: "m_currentKeyboardState ?K = sdl_keys" using k by (simp add: bind_keeps_pointer)
  from update_calls_exist [OF kK, of all_held 1] obtain m1 where
    u1: "update all_held 1 ?K = Inr (m1, dispatch_calls all_held 1 (refreshed all_held ?K))"
    by blast
  have d1: "dispatch_calls all_held 1 (refreshed all_held ?K) = [(KeyboardKey 97, add_two, 1)]"
    by (simp add: dispatch_calls_def key_calls_def mouse_calls_def button_calls_def
        axis_calls_def touch_calls_def process_touch_command_def bindKeyCommand_def
        initialised_manager_fields all_held_def)
  let ?A = "bindGamepadAxisCommand Axis_LEFTX add_two (1 / 2) ?M"
  have kA: "m_currentKeyboardState ?A = sdl_keys" using k by (simp add: bind_keeps_pointer)
  from update_calls_exist [OF kA, of "pad_stick 20000" 1] obtain m2 where
    u2: "update (pad_stick 20000) 1 ?A
           = Inr (m2, dispatch_calls (pad_stick 20000) 1 (refreshed (pad_stick 20000) ?A))"
    by blast
  have cA: "m_gameController ?A = Some 7"
    by (simp add: bindGamepadAxisCommand_def initialised_manager_fields)
  have v: "getGamepadAxisValue (refreshed (pad_stick 20000) ?A) Axis_LEFTX = 20000 / 32767"
    using getGamepadAxisValue_refreshed_LEFTX [OF cA, of "pad_stick 20000"]
    by (simp add: pad_stick_def sdl_pad_def)
  have d2: "dispatch_calls (pad_stick 20000) 1 (refreshed (pad_stick 20000) ?A)
      = [(GamepadAxisId Axis_LEFTX, add_two, 20000 / 32767)]"
    using v
    by (simp add: dispatch_calls_def key_calls_def mouse_calls_def button_calls_def
        axis_calls_def touch_calls_def process_touch_command_def bindGamepadAxisCommand_def
        initialised_manager_fields)
  show ?thesis using t k 1 u1 d1 u2 d2 unfolding e1 e2 by simp
qed

subsection \<open>Dispatch of the axis bindings\<close>

text \<open>
  C3 (as amended). In an initialised manager, \<open>update\<close> calls the command of a bound axis
  exactly when the magnitude of the stored axis value exceeds the deadzone of the binding,
  and passes that stored value, not the elapsed time. While a controller is open the stored
  value of a mapped axis is the raw reading divided by 32767: no deadzone shaping is applied
  to it, neither for the test nor for the value passed.
\<close>

theorem C3_axis_dispatch_raw:
  assumes k: "m_currentKeyboardState m = sdl_keys" and t: "tables_ok m"
  shows "\<exists>m' calls. update p dt m = Inr (m', calls)
     \<and> (\<forall>axis command deadzone.
          map_of (m_gamepadAxisCommands m) axis = Some (command, deadzone) \<longrightarrow>
          calls_of (GamepadAxisId axis) calls =
            (if \<bar>getGamepadAxisValue m' axis\<bar> > deadzone
             then [(GamepadAxisId axis, command, getGamepadAxisValue m' axis)] else []))
     \<and> (\<forall>h i. m_gameController m = Some h \<and> i < SDL_CONTROLLER_AXIS_MAX \<longrightarrow>
          getGamepadAxisValue m' (sdlAxisToGamepadAxis i)
            = real_of_int (sint (game_controller_axis p h i)) / 32767)"
proof -
  from update_calls_exist [OF k, of p dt] obtain m' where
    u: "update p dt m = Inr (m', dispatch_calls p dt (refreshed p m))"
    and v: "getGamepadAxisValue m' = getGamepadAxisValue (refreshed p m)"
    by blast
  have t': "tables_ok (refreshed p m)" using t by (simp add: tables_ok_def)
  have A: "\<forall>axis command deadzone.
          map_of (m_gamepadAxisCommands m) axis = Some (command, deadzone) \<longrightarrow>
          calls_of (GamepadAxisId axis) (dispatch_calls p dt (refreshed p m)) =
            (if \<bar>getGamepadAxisValue m' axis\<bar> > deadzone
             then [(GamepadAxisId axis, command, getGamepadAxisValue m' axis)] else [])"
    using calls_of_axis [OF t', of _ _ _ p dt] by (simp add: v)
  have R: "\<forall>h i. m_gameController m = Some h \<and> i < SDL_CONTROLLER_AXIS_MAX \<longrightarrow>
          getGamepadAxisValue m' (sdlAxisToGamepadAxis i)
            = real_of_int (sint (game_controller_axis p h i)) / 32767"
    by (simp add: v getGamepadAxisValue_refreshed)
  show ?thesis using u A R by blast
qed

lemma stick_manager_update:
  assumes "m_currentKeyboardState m = sdl_keys" "m_gameController m = Some 7"
    "m_keyCommands m = []" "m_mouseCommands m = []" "m_gamepadButtonCommands m = []"
    "m_gamepadAxisCommands m = [(Axis_LEFTX, command, deadzone)]" "m_touchCommand m = None"
  shows "\<exists>m'. update (pad_stick raw) dt m =
      Inr (m', if \<bar>real_of_int (sint raw) / 32767\<bar> > deadzone
               then [(GamepadAxisId Axis_LEFTX, command, real_of_int (sint raw) / 32767)] else [])
      \<and> getGamepadAxisValue m' Axis_LEFTX = real_of_int (sint raw) / 32767"
proof -
  from update_calls_exist [OF assms(1), of "pad_stick raw" dt] obtain m' where
    u: "update (pad_stick raw) dt m = Inr (m', dispatch_calls (pad_stick raw) dt (refreshed (pad_stick raw) m))"
    and g: "getGamepadAxisValue m' = getGamepadAxisValue (refreshed (pad_stick raw) m)"
    by blast
  have v: "getGamepadAxisValue (refreshed (pad_stick raw) m) Axis_LEFTX = real_of_int (sint raw) / 32767"
    using getGamepadAxisValue_refreshed_LEFTX [OF assms(2), of "pad_stick raw"]
    by (simp add: pad_stick_def sdl_pad_def)
  have d: "dispatch_calls (pad_stick raw) dt (refreshed (pad_stick raw) m) =
      (if \<bar>real_of_int (sint raw) / 32767\<bar> > deadzone
       then [(GamepadAxisId Axis_LEFTX, command, real_of_int (sint raw) / 32767)] else [])"
    using assms
    by (simp add: v dispatch_calls_def key_calls_def mouse_calls_def button_calls_def
        axis_calls_def touch_calls_def process_touch_command_def)
  show ?thesis using u g by (simp add: d v)
qed

lemma default_bound_fields:
  "m_currentKeyboardState (bindGamepadAxisCommand_default Axis_LEFTX c initialised_manager) = sdl_keys"
  "m_gameController (bindGamepadAxisCommand_default Axis_LEFTX c initialised_manager) = Some 7"
  "m_keyCommands (bindGamepadAxisCommand_default Axis_LEFTX c initialised_manager) = []"
  "m_mouseCommands (bindGamepadAxisCommand_default Axis_LEFTX c initialised_manager) = []"
  "m_gamepadButtonCommands (bindGamepadAxisCommand_default Axis_LEFTX c initialised_manager) = []"
  "m_gamepadAxisCommands (bindGamepadAxisCommand_default Axis_LEFTX c initialised_manager)
     = [(Axis_LEFTX, c, default_axis_deadzone)]"
  "m_touchCommand (bindGamepadAxisCommand_default Axis_LEFTX c initialised_manager) = None"
  by (simp_all add: bindGamepadAxisCommand_default_def bindGamepadAxisCommand_def
      initialised_manager_fields)

text \<open>
  C3 as it is stated fails. With the left stick at the raw reading 9830 (0.3 of full travel)
  and a command bound to the axis with the default deadzone 0.25, \<open>update\<close> calls the
  command and passes 9830/32767; the shaped magnitude of that reading, with either
  deadzone of the source (0.25 or 0.15), does not exceed 0.25, and the value passed is not
  the shaped value.
\<close>

theorem C3_axis_dispatch_raw_counterexample:
  "(\<exists>m'. update (pad_stick 9830) 1
            (bindGamepadAxisCommand_default Axis_LEFTX increment initialised_manager)
          = Inr (m', [(GamepadAxisId Axis_LEFTX, increment, 9830 / 32767)]))
   \<and> \<not> \<bar>spec_shaped default_axis_deadzone (9830 / 32767)\<bar> > default_axis_deadzone
   \<and> \<not> \<bar>spec_shaped GamepadInput_deadzone (9830 / 32767)\<bar> > default_axis_deadzone
   \<and> spec_shaped default_axis_deadzone (9830 / 32767) \<noteq> 9830 / 32767
   \<and> spec_shaped GamepadInput_deadzone (9830 / 32767) \<noteq> 9830 / 32767"
proof -
  have s: "sint (9830 :: 16 word) = 9830" by simp
  from stick_manager_update [OF default_bound_fields [of increment], where raw = 9830 and dt = 1]
  have 1: "\<exists>m'. update (pad_stick 9830) 1
            (bindGamepadAxisCommand_default Axis_LEFTX increment initialised_manager)
          = Inr (m', [(GamepadAxisId Axis_LEFTX, increment, 9830 / 32767)])"
    by (auto simp: s default_axis_deadzone_def)
  have 2: "\<not> \<bar>spec_shaped default_axis_deadzone (9830 / 32767)\<bar> > default_axis_deadzone"
    "\<not> \<bar>spec_shaped GamepadInput_deadzone (9830 / 32767)\<bar> > default_axis_deadzone"
    "spec_shaped default_axis_deadzone (9830 / 32767) \<noteq> 9830 / 32767"
    "spec_shaped GamepadInput_deadzone (9830 / 32767) \<noteq> 9830 / 32767"
    by (simp_all add: spec_shaped_def default_axis_deadzone_def GamepadInput_deadzone_def)
  show ?thesis using 1 2 by blast
qed

theorem C3_axis_dispatch_raw_witness:
  "m_currentKeyboardState (bindGamepadAxisCommand_default Axis_LEFTX increment initialised_manager)
     = sdl_keys
   \<and> tables_ok (bindGamepadAxisCommand_default Axis_LEFTX increment initialised_manager)
   \<and> map_of (m_gamepadAxisCommands
        (bindGamepadAxisCommand_default Axis_LEFTX increment initialised_manager)) Axis_LEFTX
      = Some (increment, 1 / 4)
   \<and> m_gameController (bindGamepadAxisCommand_default Axis_LEFTX increment initialised_manager)
      = Some 7
   \<and> (0 :: nat) < SDL_CONTROLLER_AXIS_MAX
   \<and> (\<exists>m' calls. update (pad_stick 20000) 1
          (bindGamepadAxisCommand_default Axis_LEFTX increment initialised_manager)
        = Inr (m', calls)
        \<and> getGamepadAxisValue m' Axis_LEFTX = 20000 / 32767
        \<and> calls_of (GamepadAxisId Axis_LEFTX) calls
            = [(GamepadAxisId Axis_LEFTX, increment, 20000 / 32767)])"
proof -
  let ?M = "bindGamepadAxisCommand_default Axis_LEFTX increment initialised_manager"
  have k: "m_currentKeyboardState ?M = sdl_keys" by (rule default_bound_fields)
  have t: "tables_ok ?M" by (simp add: tables_ok_def default_bound_fields)
  have b: "map_of (m_gamepadAxisCommands ?M) Axis_LEFTX = Some (increment, 1 / 4)"
    by (simp add: default_bound_fields default_axis_deadzone_def)
  have c: "m_gameController ?M = Some 7" by (rule default_bound_fields)
  have i: "(0 :: nat) < SDL_CONTROLLER_AXIS_MAX" by (simp add: SDL_CONTROLLER_AXIS_MAX_def)
  from C3_axis_dispatch_raw [OF k t, of "pad_stick 20000" 1] obtain m' calls where
    u: "update (pad_stick 20000) 1 ?M = Inr (m', calls)"
    and A: "\<forall>axis command deadzone.
          map_of (m_gamepadAxisCommands ?M) axis = Some (command, deadzone) \<longrightarrow>
          calls_of (GamepadAxisId axis) calls =
            (if \<bar>getGamepadAxisValue m' axis\<bar> > deadzone
             then [(GamepadAxisId axis, command, getGamepadAxisValue m' axis)] else [])"
    and R: "\<forall>h i. m_gameController ?M = Some h \<and> i < SDL_CONTROLLER_AXIS_MAX \<longrightarrow>
          getGamepadAxisValue m' (sdlAxisToGamepadAxis i)
            = real_of_int (sint (game_controller_axis (pad_stick 20000) h i)) / 32767"
    by blast
  from R c i have "getGamepadAxisValue m' (sdlAxisToGamepadAxis 0)
            = real_of_int (sint (game_controller_axis (pad_stick 20000) 7 0)) / 32767"
    by blast
  then have v: "getGamepadAxisValue m' Axis_LEFTX = 20000 / 32767"
    by (simp add: sdlAxisToGamepadAxis_def pad_stick_def sdl_pad_def)
  from A b have "calls_of (GamepadAxisId Axis_LEFTX) calls =
            (if \<bar>getGamepadAxisValue m' Axis_LEFTX\<bar> > 1 / 4
             then [(GamepadAxisId Axis_LEFTX, increment, getGamepadAxisValue m' Axis_LEFTX)] else [])"
    by blast
  then have "calls_of (GamepadAxisId Axis_LEFTX) calls
            = [(GamepadAxisId Axis_LEFTX, increment, 20000 / 32767)]"
    by (simp add: v)
  then show ?thesis using k t b c i u v by blast
qed

subsection \<open>Gamepad queries after the controller is gone\<close>

lemma open_loop_no_joysticks: "open_loop sdl_idle (joystick_indices sdl_idle) st = st"
  by (simp add: joystick_indices_def sdl_idle_def)

text \<open>
  C4. The claim: a gamepad query made while no gamepad is open returns the neutral value
  and never a value left over from a controller that was connected before. The
  binding-table manager answers from its stored maps without looking at the handle, and
  nothing clears the maps when the controller goes away: after one update with button A
  down and the left stick at 20000, the removal of the controller (no other one connected)
  and one more update, the handle is null, \<open>isGamepadButtonDown(A)\<close> is still true,
  \<open>getGamepadAxisValue(LEFTX)\<close> is still 20000/32767, and a command bound to the axis is
  still called with that value.
\<close>

theorem C4_stale_gamepad_state:
  "\<exists>m1 calls1 m2 calls2.
      update pad_active 1 (bindGamepadAxisCommand_default Axis_LEFTX increment initialised_manager)
        = Inr (m1, calls1)
      \<and> update sdl_idle 1 (processEvent sdl_idle (SDL_CONTROLLERDEVICEREMOVED 0) m1)
        = Inr (m2, calls2)
      \<and> m_gameController m2 = None
      \<and> isGamepadButtonDown m2 Button_A
      \<and> getGamepadAxisValue m2 Axis_LEFTX = 20000 / 32767
      \<and> calls2 = [(GamepadAxisId Axis_LEFTX, increment, 20000 / 32767)]"
proof -
  let ?M = "bindGamepadAxisCommand_default Axis_LEFTX increment initialised_manager"
  have k: "m_currentKeyboardState ?M = sdl_keys" by (rule default_bound_fields)
  have c: "m_gameController ?M = Some 7" by (rule default_bound_fields)
  from update_initialised [OF k, of pad_active 1] obtain a1 where
    u1: "update pad_active 1 ?M = Inr ((refreshed pad_active ?M)\<lparr>m_activeInputMethod := a1\<rparr>,
          dispatch_calls pad_active 1 (refreshed pad_active ?M))" by blast
  let ?m1 = "(refreshed pad_active ?M)\<lparr>m_activeInputMethod := a1\<rparr>"
  have b1: "isGamepadButtonDown (refreshed pad_active ?M) Button_A"
    using isGamepadButtonDown_refreshed_A [OF c, of pad_active]
    by (simp add: pad_active_def sdl_pad_def)
  have v1: "getGamepadAxisValue (refreshed pad_active ?M) Axis_LEFTX = 20000 / 32767"
    using getGamepadAxisValue_refreshed_LEFTX [OF c, of pad_active]
    by (simp add: pad_active_def sdl_pad_def)
  let ?e = "?m1\<lparr>m_gameController := None, m_gameControllerIndex := - 1\<rparr>"
  have i1: "m_gameControllerIndex ?M = 0"
    by (simp add: bindGamepadAxisCommand_default_def bindGamepadAxisCommand_def
        initialised_manager_fields)
  have e: "processEvent sdl_idle (SDL_CONTROLLERDEVICEREMOVED 0) ?m1 = ?e"
    using c i1 by (simp add: open_loop_no_joysticks)
  have ke: "m_currentKeyboardState ?e = sdl_keys" using k by simp
  from update_initialised [OF ke, of sdl_idle 1] obtain a2 where
    u2: "update sdl_idle 1 ?e = Inr ((refreshed sdl_idle ?e)\<lparr>m_activeInputMethod := a2\<rparr>,
          dispatch_calls sdl_idle 1 (refreshed sdl_idle ?e))" by blast
  let ?m2 = "(refreshed sdl_idle ?e)\<lparr>m_activeInputMethod := a2\<rparr>"
  have ce: "m_gameController ?e = None" by simp
  note r = refreshed_no_controller [OF ce, of sdl_idle]
  have n2: "m_gameController ?m2 = None" using ce by simp
  have b2: "isGamepadButtonDown (refreshed sdl_idle ?e) Button_A"
    using b1 r by (simp add: isGamepadButtonDown_def)
  have v2: "getGamepadAxisValue (refreshed sdl_idle ?e) Axis_LEFTX = 20000 / 32767"
    using v1 r by (simp add: getGamepadAxisValue_def)
  have t: "m_keyCommands ?e = []" "m_mouseCommands ?e = []" "m_gamepadButtonCommands ?e = []"
    "m_gamepadAxisCommands ?e = [(Axis_LEFTX, increment, default_axis_deadzone)]"
    "m_touchCommand ?e = None"
    by (simp_all add: default_bound_fields)
  have d2: "dispatch_calls sdl_idle 1 (refreshed sdl_idle ?e)
      = [(GamepadAxisId Axis_LEFTX, increment, 20000 / 32767)]"
    using t
    by (simp add: v2 dispatch_calls_def key_calls_def mouse_calls_def button_calls_def
        axis_calls_def touch_calls_def process_touch_command_def default_axis_deadzone_def)
  have "isGamepadButtonDown ?m2 Button_A" "getGamepadAxisValue ?m2 Axis_LEFTX = 20000 / 32767"
    using b2 v2 by simp_all
  then show ?thesis using u1 u2 n2 d2 unfolding e [symmetric] by (metis (no_types, lifting))
qed

subsection \<open>The keyboard-state pointer\<close>

lemma updateKeyboardState_loop_pointer:
  "updateKeyboardState_loop p is m = Inr m' \<Longrightarrow>
   m_currentKeyboardState m' = m_currentKeyboardState m"
proof (induction "is" arbitrary: m)
  case Nil
  then show ?case by simp
next
  case (Cons i "is")
  show ?case
  proof (cases "key_from_scancode p i \<noteq> SDLK_UNKNOWN")
    case True
    then obtain v where v: "deref_keys p (m_currentKeyboardState m) i = Inr v"
      using Cons.prems by (auto simp: Let_def split: sum.splits)
    then have "updateKeyboardState_loop p is
        (m\<lparr>m_previousKeyState := (m_previousKeyState m)(key_from_scancode p i \<mapsto> v \<noteq> 0)\<rparr>) = Inr m'"
      using Cons.prems True by (simp add: Let_def)
    from Cons.IH [OF this] show ?thesis by simp
  next
    case False
    then have "updateKeyboardState_loop p is m = Inr m'" using Cons.prems by (simp add: Let_def)
    from Cons.IH [OF this] show ?thesis .
  qed
qed

lemma process_key_commands_pointer:
  "process_key_commands p dt tbl m = Inr (m', calls) \<Longrightarrow>
   m_currentKeyboardState m' = m_currentKeyboardState m"
proof (induction tbl arbitrary: m calls)
  case Nil
  then show ?case by simp
next
  case (Cons kc tbl)
  obtain key c where kc: "kc = (key, c)" by (cases kc)
  from Cons.prems kc obtain down where d: "isKeyDown p m key = Inr down"
    by (auto split: sum.splits)
  show ?case
  proof (cases down)
    case True
    then obtain calls' where
      "process_key_commands p dt tbl (m\<lparr>m_activeInputMethod := KEYBOARD\<rparr>) = Inr (m', calls')"
      using Cons.prems kc d by (auto split: sum.splits)
    from Cons.IH [OF this] show ?thesis by simp
  next
    case False
    then have "process_key_commands p dt tbl m = Inr (m', calls)"
      using Cons.prems kc d by simp
    from Cons.IH [OF this] show ?thesis .
  qed
qed

lemma process_mouse_commands_pointer:
  "m_currentKeyboardState (fst (process_mouse_commands dt tbl m)) = m_currentKeyboardState m"
  using process_mouse_commands_eq [of dt tbl m] by auto

lemma process_button_commands_pointer:
  "m_currentKeyboardState (fst (process_button_commands dt tbl m)) = m_currentKeyboardState m"
  using process_button_commands_eq [of dt tbl m] by auto

lemma process_axis_commands_pointer:
  "m_currentKeyboardState (fst (process_axis_commands tbl m)) = m_currentKeyboardState m"
  using process_axis_commands_eq [of tbl m] by auto

lemma process_touch_command_pointer:
  "m_currentKeyboardState (fst (process_touch_command dt m)) = m_currentKeyboardState m"
  using process_touch_command_eq [of dt m] by auto

lemma update_pointer:
  assumes "update p dt m = Inr (m', calls)"
  shows "m_currentKeyboardState m' = m_currentKeyboardState m"
proof -
  from assms obtain m1 where 1: "updateKeyboardState p m = Inr m1"
    by (auto simp: update_def split: sum.splits)
  let ?m3 = "updateGamepadState p (updateMouseState p m1)"
  from assms 1 obtain m4 kc where 4: "process_key_commands p dt (m_keyCommands ?m3) ?m3 = Inr (m4, kc)"
    by (auto simp: update_def Let_def split: sum.splits)
  have p1: "m_currentKeyboardState m1 = m_currentKeyboardState m"
    using 1 updateKeyboardState_loop_pointer by (auto simp: updateKeyboardState_def)
  have p3: "m_currentKeyboardState ?m3 = m_currentKeyboardState m1"
    by (simp add: updateGamepadState_def updateMouseState_def Let_def split: option.splits)
  have p4: "m_currentKeyboardState m4 = m_currentKeyboardState ?m3"
    using process_key_commands_pointer [OF 4] .
  let ?m5 = "fst (process_mouse_commands dt (m_mouseCommands m4) m4)"
  let ?m6 = "fst (process_button_commands dt (m_gamepadButtonCommands ?m5) ?m5)"
  let ?m7 = "fst (process_axis_commands (m_gamepadAxisCommands ?m6) ?m6)"
  let ?m8 = "fst (process_touch_command dt ?m7)"
  have "m' = ?m8"
    using assms 1 4 by (simp add: update_def Let_def split_beta)
  then show ?thesis
    using p1 p3 p4
    by (simp add: process_mouse_commands_pointer process_button_commands_pointer
        process_axis_commands_pointer process_touch_command_pointer)
qed

lemma processEvent_pointer:
  "m_currentKeyboardState (processEvent p e m) = m_currentKeyboardState m"
  by (cases e) (simp_all add: Let_def split_beta)

lemma init_pointer:
  "init p0 m = (True, m') \<Longrightarrow> m_currentKeyboardState m' = sdl_keys"
  by (auto simp: init_def SDL_GetKeyboardState_def Let_def split_beta split: if_splits)

lemma key_queries_set:
  assumes "m_currentKeyboardState m = sdl_keys"
  shows "isKeyDown p m key = Inr (keyboard_state p (scancode_from_key p key) \<noteq> 0)"
    "isKeyPressed p m key = Inr (keyboard_state p (scancode_from_key p key) \<noteq> 0
        \<and> \<not> find_or_false (m_previousKeyState m) key)"
    "isKeyReleased p m key = Inr (keyboard_state p (scancode_from_key p key) = 0
        \<and> find_or_false (m_previousKeyState m) key)"
  using assms by (simp_all add: isKeyDown_def isKeyPressed_def isKeyReleased_def deref_keys_def Let_def)

lemma key_queries_null:
  assumes "m_currentKeyboardState m = nullptr"
  shows "isKeyDown p m key = Inl NullPointerDereference"
    "isKeyPressed p m key = Inl NullPointerDereference"
    "isKeyReleased p m key = Inl NullPointerDereference"
  using assms by (simp_all add: isKeyDown_def isKeyPressed_def isKeyReleased_def deref_keys_def Let_def)

text \<open>
  C10. The three keyboard queries read through the keyboard-state pointer without a test:
  with the pointer null, as the constructor leaves it, each of them is a read through the
  null pointer, for every key and platform. Only \<open>init\<close> sets the pointer: a failed \<open>init\<close>
  leaves the manager as it was, and \<open>shutdown\<close>, \<open>processEvent\<close>, the bind functions and
  a returning \<open>update\<close> leave the pointer as it was. After a successful \<open>init\<close> the pointer
  is set and the three queries return a value.
\<close>

theorem C10_keyboard_pointer:
  "m_currentKeyboardState (InputManager_new :: 'g InputManager) = nullptr
   \<and> (\<forall>m :: 'g InputManager. m_currentKeyboardState m = nullptr \<longrightarrow>
         isKeyDown p m key = Inl NullPointerDereference
         \<and> isKeyPressed p m key = Inl NullPointerDereference
         \<and> isKeyReleased p m key = Inl NullPointerDereference)
   \<and> (\<forall>p0 (m :: 'g InputManager) m'. init p0 m = (True, m') \<longrightarrow>
         m_currentKeyboardState m' = sdl_keys)
   \<and> (\<forall>p0 (m :: 'g InputManager) m'. init p0 m = (False, m') \<longrightarrow> m' = m)
   \<and> (\<forall>m :: 'g InputManager. m_currentKeyboardState m = sdl_keys \<longrightarrow>
         isKeyDown p m key = Inr (keyboard_state p (scancode_from_key p key) \<noteq> 0)
         \<and> isKeyPressed p m key = Inr (keyboard_state p (scancode_from_key p key) \<noteq> 0
              \<and> \<not> find_or_false (m_previousKeyState m) key)
         \<and> isKeyReleased p m key = Inr (keyboard_state p (scancode_from_key p key) = 0
              \<and> find_or_false (m_previousKeyState m) key))
   \<and> (\<forall>m :: 'g InputManager. m_currentKeyboardState (shutdown m) = m_currentKeyboardState m)
   \<and> (\<forall>q e (m :: 'g InputManager).
         m_currentKeyboardState (processEvent q e m) = m_currentKeyboardState m)
   \<and> (\<forall>k b gb ax c d (m :: 'g InputManager).
         m_currentKeyboardState (bindKeyCommand k c m) = m_currentKeyboardState m
         \<and> m_currentKeyboardState (bindMouseCommand b c m) = m_currentKeyboardState m
         \<and> m_currentKeyboardState (bindGamepadButtonCommand gb c m) = m_currentKeyboardState m
         \<and> m_currentKeyboardState (bindGamepadAxisCommand ax c d m) = m_currentKeyboardState m
         \<and> m_currentKeyboardState (bindTouchCommand c m) = m_currentKeyboardState m)
   \<and> (\<forall>q dt (m :: 'g InputManager) m' calls. update q dt m = Inr (m', calls) \<longrightarrow>
         m_currentKeyboardState m' = m_currentKeyboardState m)"
proof (intro conjI allI impI)
  show "m_currentKeyboardState (InputManager_new :: 'g InputManager) = nullptr"
    by (simp add: InputManager_new_def)
next
  fix p0 and m m' :: "'g InputManager"
  assume "init p0 m = (False, m')"
  then show "m' = m" by (auto simp: init_def Let_def split_beta split: if_splits)
next
  fix m :: "'g InputManager"
  show "m_currentKeyboardState (shutdown m) = m_currentKeyboardState m"
    by (simp add: shutdown_def)
qed (simp_all add: key_queries_null key_queries_set init_pointer processEvent_pointer
    bind_keeps_pointer update_pointer)

theorem C10_keyboard_pointer_witness:
  "m_currentKeyboardState (InputManager_new :: nat InputManager) = nullptr
   \<and> isKeyDown all_held (InputManager_new :: nat InputManager) 97 = Inl NullPointerDereference
   \<and> isKeyPressed all_held (InputManager_new :: nat InputManager) 97 = Inl NullPointerDereference
   \<and> isKeyReleased all_held (InputManager_new :: nat InputManager) 97 = Inl NullPointerDereference
   \<and> init pad_released InputManager_new = (True, initialised_manager)
   \<and> init (sdl_idle\<lparr>was_init_gamecontroller := False, init_subsystem_result := - 1\<rparr>)
        (InputManager_new :: nat InputManager) = (False, InputManager_new)
   \<and> m_currentKeyboardState initialised_manager = sdl_keys
   \<and> isKeyDown all_held initialised_manager 97 = Inr True
   \<and> isKeyPressed all_held initialised_manager 97 = Inr True
   \<and> isKeyReleased all_held initialised_manager 97 = Inr False
   \<and> (\<exists>m' calls. update all_held 1 initialised_manager = Inr (m', calls)
         \<and> m_currentKeyboardState m' = sdl_keys)"
proof -
  note t = C10_keyboard_pointer [where 'g = nat and p = all_held and key = 97]
  note t1 = t [THEN conjunct1]
  note t2 = t [THEN conjunct2, THEN conjunct1, rule_format]
  note t3 = t [THEN conjunct2, THEN conjunct2, THEN conjunct1, rule_format]
  note t5 = t [THEN conjunct2, THEN conjunct2, THEN conjunct2, THEN conjunct2, THEN conjunct1,
      rule_format]
  note t9 = t [THEN conjunct2, THEN conjunct2, THEN conjunct2, THEN conjunct2, THEN conjunct2,
      THEN conjunct2, THEN conjunct2, THEN conjunct2, rule_format]
  have n: "m_currentKeyboardState (InputManager_new :: nat InputManager) = nullptr"
    by (rule t1)
  have i: "init pad_released InputManager_new = (True, initialised_manager)"
    by (simp add: initialised_manager_def init_def pad_released_def sdl_pad_def sdl_idle_def
        Let_def split_beta)
  have f: "init (sdl_idle\<lparr>was_init_gamecontroller := False, init_subsystem_result := - 1\<rparr>)
        (InputManager_new :: nat InputManager) = (False, InputManager_new)"
    by (simp add: init_def sdl_idle_def)
  have k: "m_currentKeyboardState initialised_manager = sdl_keys" by (rule t3 [OF i])
  have 1: "isKeyDown all_held (InputManager_new :: nat InputManager) 97 = Inl NullPointerDereference
     \<and> isKeyPressed all_held (InputManager_new :: nat InputManager) 97 = Inl NullPointerDereference
     \<and> isKeyReleased all_held (InputManager_new :: nat InputManager) 97 = Inl NullPointerDereference"
    by (rule t2 [OF n])
  have e: "m_previousKeyState initialised_manager = Map.empty"
    by (simp add: initialised_manager_def init_def pad_released_def sdl_pad_def sdl_idle_def
        InputManager_new_def joystick_indices_def Let_def)
  have 2: "isKeyDown all_held initialised_manager 97 = Inr True
     \<and> isKeyPressed all_held initialised_manager 97 = Inr True
     \<and> isKeyReleased all_held initialised_manager 97 = Inr False"
    using t5 [OF k] by (simp add: e all_held_def find_or_false_def)
  from update_initialised [OF k, of all_held 1] obtain m' calls where
    u: "update all_held 1 initialised_manager = Inr (m', calls)" by blast
  have "m_currentKeyboardState m' = sdl_keys" using t9 [OF u] k by simp
  with u have 3: "\<exists>m' calls. update all_held 1 initialised_manager = Inr (m', calls)
         \<and> m_currentKeyboardState m' = sdl_keys" by blast
  from n 1 i f k 2 3 show ?thesis by simp
qed

subsection \<open>Hotplug of the gamepad device\<close>

lemma GamepadInput_update_detached:
  assumes "controller g = Some h" "\<not> game_controller_attached p h"
  shows "GamepadInput_update p g =
     g\<lparr>previousButtonStates :=
         memcpy (previousButtonStates g) (currentButtonStates g) SDL_CONTROLLER_BUTTON_MAX,
       controller := None, controllerWasConnected := False\<rparr>"
  using assms by (simp add: GamepadInput_update_def Let_def)

lemma GamepadInput_update_rescan:
  assumes "controller g = None" "open_first_controller p (joystick_indices p) = Some (h, i)"
    "game_controller_attached p h"
  shows "GamepadInput_update p g =
     g\<lparr>previousButtonStates :=
         memcpy (previousButtonStates g) (currentButtonStates g) SDL_CONTROLLER_BUTTON_MAX,
       controller := Some h, controllerWasConnected := True,
       currentButtonStates :=
         (\<lambda>i. if i < SDL_CONTROLLER_BUTTON_MAX then game_controller_button p h i = 1
              else currentButtonStates g i),
       axisValues :=
         (\<lambda>i. if i < SDL_CONTROLLER_AXIS_MAX then game_controller_axis p h i
              else axisValues g i)\<rparr>"
  using assms by (simp add: GamepadInput_update_def Let_def cong: if_cong)

lemma poll_events_gamepad:
  "gamepad (poll_events evs d) =
     (if list_ex is_controller_device_event evs \<and> gamepad d \<noteq> None
      then Some GamepadInput_new else gamepad d)"
  by (induction evs arbitrary: d) auto

lemma poll_events_others:
  "keyboard (poll_events evs d) = keyboard d" "mouse (poll_events evs d) = mouse d"
  "steamDeck (poll_events evs d) = steamDeck d"
  by (induction evs arbitrary: d) auto

lemma DeviceManager_update_gamepad:
  "gamepad (DeviceManager_update evs p d) =
     map_option (GamepadInput_update p)
       (if list_ex is_controller_device_event evs \<and> gamepad d \<noteq> None
        then Some GamepadInput_new else gamepad d)"
  by (simp add: DeviceManager_update_def Let_def poll_events_gamepad)

lemma GamepadInput_update_attached:
  assumes "controller g = Some h" "game_controller_attached p h"
  shows "GamepadInput_update p g =
     g\<lparr>previousButtonStates :=
         memcpy (previousButtonStates g) (currentButtonStates g) SDL_CONTROLLER_BUTTON_MAX,
       controllerWasConnected := True,
       currentButtonStates :=
         (\<lambda>i. if i < SDL_CONTROLLER_BUTTON_MAX then game_controller_button p h i = 1
              else currentButtonStates g i),
       axisValues :=
         (\<lambda>i. if i < SDL_CONTROLLER_AXIS_MAX then game_controller_axis p h i
              else axisValues g i)\<rparr>"
  using assms by (simp add: GamepadInput_update_def Let_def cong: if_cong)

lemma poll_events_closes_replaced:
  "gamepad d = Some g \<Longrightarrow> list_ex is_controller_device_event evs \<Longrightarrow>
   poll_events_closes evs d = GamepadInput_destroy_closes g"
proof (induction evs arbitrary: d)
  case Nil
  then show ?case by simp
next
  case (Cons e evs)
  have fresh: "\<And>es d'. gamepad d' = Some GamepadInput_new \<Longrightarrow> poll_events_closes es d' = []"
  proof -
    fix es and d' :: DeviceManager
    show "gamepad d' = Some GamepadInput_new \<Longrightarrow> poll_events_closes es d' = []"
      by (induction es arbitrary: d')
        (simp_all add: GamepadInput_destroy_closes_def GamepadInput_new_def)
  qed
  show ?case
  proof (cases "is_controller_device_event e")
    case True
    then show ?thesis using Cons.prems(1) fresh [of "d\<lparr>gamepad := Some GamepadInput_new\<rparr>" evs]
      by simp
  next
    case False
    then show ?thesis using Cons by simp
  qed
qed

text \<open>
  C6 (as amended). When the handle reports not-attached during \<open>GamepadInput::update\<close>,
  that update releases it (it closes the handle and sets the pointer to null), and the
  gamepad queries then return the neutral values: no stale handle is observed. The button
  states last read from the detached device stay stored. The scan for a replacement is
  the first step of the next update of a gamepad object without a handle: that update
  binds the first controller that opens and reads its buttons and axes, and \<open>initialize\<close>
  is not involved. From then on \<open>isButtonPressed\<close> and \<open>getAxisValue\<close> answer from the new
  device. \<open>isButtonJustPressed\<close> compares, in every update that reads a device, the button
  read now with the button state stored before that update: on the update that rescans,
  that stored state is the last one read from the old device, so a button down on the new
  device is reported as just pressed only when it was up on the old one; one update
  later the comparison is between two readings of the new device. When the event queue
  the device manager drains holds a controller-added or controller-removed event, the
  manager replaces its gamepad object by a new one before updating it (closing the handle
  the old one held), so that this update scans, and compares with all buttons up; without
  such an event it updates the gamepad object it has. The binding-table manager releases
  and rescans in \<open>processEvent\<close>, not in \<open>update\<close>: at a controller-removed event for the
  bound device index it closes the handle and takes the first controller that opens, and
  at a controller-added event while it has no handle it opens the added device.
\<close>

theorem C6_hotplug_rescan:
  "(\<forall>p g h. controller g = Some h \<and> \<not> game_controller_attached p h \<longrightarrow>
      controller (GamepadInput_update p g) = None
      \<and> GamepadInput_update_closes p g = [h]
      \<and> currentButtonStates (GamepadInput_update p g) = currentButtonStates g
      \<and> (\<forall>b. \<not> GamepadInput_isButtonPressed (GamepadInput_update p g) b)
      \<and> (\<forall>b. \<not> GamepadInput_isButtonJustPressed (GamepadInput_update p g) b)
      \<and> (\<forall>a. GamepadInput_getAxisValue (GamepadInput_update p g) a = 0))
   \<and> (\<forall>p g h i. controller g = None
        \<and> open_first_controller p (joystick_indices p) = Some (h, i)
        \<and> game_controller_attached p h \<longrightarrow>
      controller (GamepadInput_update p g) = Some h
      \<and> GamepadInput_update_closes p g = []
      \<and> (\<forall>b. GamepadInput_isButtonPressed (GamepadInput_update p g) b
             = (b < SDL_CONTROLLER_BUTTON_MAX \<and> game_controller_button p h b = 1))
      \<and> (\<forall>b. GamepadInput_isButtonJustPressed (GamepadInput_update p g) b
             = (b < SDL_CONTROLLER_BUTTON_MAX \<and> game_controller_button p h b = 1
                \<and> \<not> currentButtonStates g b))
      \<and> (\<forall>b. b < SDL_CONTROLLER_BUTTON_MAX \<longrightarrow>
             currentButtonStates (GamepadInput_update p g) b = (game_controller_button p h b = 1))
      \<and> (\<forall>a. a < SDL_CONTROLLER_AXIS_MAX \<longrightarrow>
             GamepadInput_getAxisValue (GamepadInput_update p g) a
               = apply_deadzone GamepadInput_deadzone
                   (real_of_int (sint (game_controller_axis p h a)) * normalizeFactor)))
   \<and> (\<forall>p g h. controller g = Some h \<and> game_controller_attached p h \<longrightarrow>
      controller (GamepadInput_update p g) = Some h
      \<and> GamepadInput_update_closes p g = []
      \<and> (\<forall>b. GamepadInput_isButtonPressed (GamepadInput_update p g) b
             = (b < SDL_CONTROLLER_BUTTON_MAX \<and> game_controller_button p h b = 1))
      \<and> (\<forall>b. GamepadInput_isButtonJustPressed (GamepadInput_update p g) b
             = (b < SDL_CONTROLLER_BUTTON_MAX \<and> game_controller_button p h b = 1
                \<and> \<not> currentButtonStates g b))
      \<and> (\<forall>b. b < SDL_CONTROLLER_BUTTON_MAX \<longrightarrow>
             currentButtonStates (GamepadInput_update p g) b = (game_controller_button p h b = 1))
      \<and> (\<forall>a. a < SDL_CONTROLLER_AXIS_MAX \<longrightarrow>
             GamepadInput_getAxisValue (GamepadInput_update p g) a
               = apply_deadzone GamepadInput_deadzone
                   (real_of_int (sint (game_controller_axis p h a)) * normalizeFactor)))
   \<and> (\<forall>evs p d g. gamepad d = Some g \<and> list_ex is_controller_device_event evs \<longrightarrow>
        gamepad (DeviceManager_update evs p d) = Some (GamepadInput_update p GamepadInput_new)
        \<and> poll_events_closes evs d = GamepadInput_destroy_closes g)
   \<and> (\<forall>evs p d. \<not> list_ex is_controller_device_event evs \<longrightarrow>
        gamepad (DeviceManager_update evs p d) = map_option (GamepadInput_update p) (gamepad d))
   \<and> (\<forall>p which h (m :: 'g InputManager).
        m_gameController m = Some h \<and> which = m_gameControllerIndex m \<longrightarrow>
        m_gameController (processEvent p (SDL_CONTROLLERDEVICEREMOVED which) m)
          = fst (open_loop p (joystick_indices p) (None, - 1))
        \<and> processEvent_closes (SDL_CONTROLLERDEVICEREMOVED which) m = [h])
   \<and> (\<forall>p which (m :: 'g InputManager). m_gameController m = None \<longrightarrow>
        m_gameController (processEvent p (SDL_CONTROLLERDEVICEADDED which) m)
          = game_controller_open p which)"
proof (intro conjI allI impI)
  fix p :: SDL and g :: GamepadInput and h
  assume a: "controller g = Some h \<and> \<not> game_controller_attached p h"
  note u = GamepadInput_update_detached [of g h p]
  show "controller (GamepadInput_update p g) = None" using a u by simp
  show "GamepadInput_update_closes p g = [h]"
    using a by (simp add: GamepadInput_update_closes_def)
  show "currentButtonStates (GamepadInput_update p g) = currentButtonStates g"
    using a u by simp
  show "\<And>b. \<not> GamepadInput_isButtonPressed (GamepadInput_update p g) b"
    using a u by (simp add: GamepadInput_isButtonPressed_def GamepadInput_isAvailable_def)
  show "\<And>b. \<not> GamepadInput_isButtonJustPressed (GamepadInput_update p g) b"
    using a u by (simp add: GamepadInput_isButtonJustPressed_def GamepadInput_isAvailable_def)
  show "\<And>a. GamepadInput_getAxisValue (GamepadInput_update p g) a = 0"
    using a u by (simp add: GamepadInput_getAxisValue_def GamepadInput_isAvailable_def)
next
  fix p :: SDL and g :: GamepadInput and h i
  assume a: "controller g = None \<and> open_first_controller p (joystick_indices p) = Some (h, i)
      \<and> game_controller_attached p h"
  then have u: "GamepadInput_update p g =
     g\<lparr>previousButtonStates :=
         memcpy (previousButtonStates g) (currentButtonStates g) SDL_CONTROLLER_BUTTON_MAX,
       controller := Some h, controllerWasConnected := True,
       currentButtonStates :=
         (\<lambda>i. if i < SDL_CONTROLLER_BUTTON_MAX then game_controller_button p h i = 1
              else currentButtonStates g i),
       axisValues :=
         (\<lambda>i. if i < SDL_CONTROLLER_AXIS_MAX then game_controller_axis p h i
              else axisValues g i)\<rparr>"
    using GamepadInput_update_rescan [of g p h i] by blast
  show "controller (GamepadInput_update p g) = Some h" unfolding u by simp
  show "GamepadInput_update_closes p g = []"
    using a by (simp add: GamepadInput_update_closes_def)
  show "\<And>b. GamepadInput_isButtonPressed (GamepadInput_update p g) b
             = (b < SDL_CONTROLLER_BUTTON_MAX \<and> game_controller_button p h b = 1)"
    unfolding u by (auto simp: GamepadInput_isButtonPressed_def GamepadInput_isAvailable_def)
  show "\<And>b. GamepadInput_isButtonJustPressed (GamepadInput_update p g) b
             = (b < SDL_CONTROLLER_BUTTON_MAX \<and> game_controller_button p h b = 1
                \<and> \<not> currentButtonStates g b)"
    unfolding u
    by (auto simp: GamepadInput_isButtonJustPressed_def GamepadInput_isAvailable_def memcpy_def)
  show "\<And>b. b < SDL_CONTROLLER_BUTTON_MAX \<Longrightarrow>
             currentButtonStates (GamepadInput_update p g) b = (game_controller_button p h b = 1)"
    unfolding u by simp
  show "\<And>a. a < SDL_CONTROLLER_AXIS_MAX \<Longrightarrow>
             GamepadInput_getAxisValue (GamepadInput_update p g) a
               = apply_deadzone GamepadInput_deadzone
                   (real_of_int (sint (game_controller_axis p h a)) * normalizeFactor)"
    unfolding u by (simp add: GamepadInput_getAxisValue_def GamepadInput_isAvailable_def Let_def)
next
  fix p :: SDL and g :: GamepadInput and h
  assume a: "controller g = Some h \<and> game_controller_attached p h"
  then have u: "GamepadInput_update p g =
     g\<lparr>previousButtonStates :=
         memcpy (previousButtonStates g) (currentButtonStates g) SDL_CONTROLLER_BUTTON_MAX,
       controllerWasConnected := True,
       currentButtonStates :=
         (\<lambda>i. if i < SDL_CONTROLLER_BUTTON_MAX then game_controller_button p h i = 1
              else currentButtonStates g i),
       axisValues :=
         (\<lambda>i. if i < SDL_CONTROLLER_AXIS_MAX then game_controller_axis p h i
              else axisValues g i)\<rparr>"
    using GamepadInput_update_attached [of g h p] by blast
  show "controller (GamepadInput_update p g) = Some h" unfolding u using a by simp
  show "GamepadInput_update_closes p g = []"
    using a by (simp add: GamepadInput_update_closes_def)
  show "\<And>b. GamepadInput_isButtonPressed (GamepadInput_update p g) b
             = (b < SDL_CONTROLLER_BUTTON_MAX \<and> game_controller_button p h b = 1)"
    unfolding u using a
    by (auto simp: GamepadInput_isButtonPressed_def GamepadInput_isAvailable_def)
  show "\<And>b. GamepadInput_isButtonJustPressed (GamepadInput_update p g) b
             = (b < SDL_CONTROLLER_BUTTON_MAX \<and> game_controller_button p h b = 1
                \<and> \<not> currentButtonStates g b)"
    unfolding u using a
    by (auto simp: GamepadInput_isButtonJustPressed_def GamepadInput_isAvailable_def memcpy_def)
  show "\<And>b. b < SDL_CONTROLLER_BUTTON_MAX \<Longrightarrow>
             currentButtonStates (GamepadInput_update p g) b = (game_controller_button p h b = 1)"
    unfolding u by simp
  show "\<And>a. a < SDL_CONTROLLER_AXIS_MAX \<Longrightarrow>
             GamepadInput_getAxisValue (GamepadInput_update p g) a
               = apply_deadzone GamepadInput_deadzone
                   (real_of_int (sint (game_controller_axis p h a)) * normalizeFactor)"
    unfolding u using a
    by (simp add: GamepadInput_getAxisValue_def GamepadInput_isAvailable_def Let_def)
next
  fix evs and p :: SDL and d :: DeviceManager and g
  assume a: "gamepad d = Some g \<and> list_ex is_controller_device_event evs"
  then show "gamepad (DeviceManager_update evs p d) = Some (GamepadInput_update p GamepadInput_new)"
    by (simp add: DeviceManager_update_gamepad)
  show "poll_events_closes evs d = GamepadInput_destroy_closes g"
    using a by (simp add: poll_events_closes_replaced)
next
  fix evs and p :: SDL and d :: DeviceManager
  assume "\<not> list_ex is_controller_device_event evs"
  then show "gamepad (DeviceManager_update evs p d) = map_option (GamepadInput_update p) (gamepad d)"
    by (simp add: DeviceManager_update_gamepad)
next
  fix p :: SDL and which h and m :: "'g InputManager"
  assume a: "m_gameController m = Some h \<and> which = m_gameControllerIndex m"
  then show "m_gameController (processEvent p (SDL_CONTROLLERDEVICEREMOVED which) m)
      = fst (open_loop p (joystick_indices p) (None, - 1))"
    by (simp add: split_beta)
  show "processEvent_closes (SDL_CONTROLLERDEVICEREMOVED which) m = [h]"
    using a by (simp add: processEvent_closes_def)
next
  fix p :: SDL and which and m :: "'g InputManager"
  assume "m_gameController m = None"
  then show "m_gameController (processEvent p (SDL_CONTROLLERDEVICEADDED which) m)
      = game_controller_open p which"
    by simp
qed

lemma pad_held_scan: "open_first_controller pad_held (joystick_indices pad_held) = Some (7, 0)"
  by (simp add: pad_held_def sdl_pad_def sdl_idle_def joystick_indices_def)

lemma pad_swapped_scan:
  "open_first_controller pad_swapped (joystick_indices pad_swapped) = Some (8, 0)"
  by (simp add: pad_swapped_def sdl_idle_def joystick_indices_def)

lemma gamepad_on_7_controller: "controller gamepad_on_7 = Some 7"
  unfolding gamepad_on_7_def
  using GamepadInput_update_rescan [of GamepadInput_new pad_held 7 0] pad_held_scan
  by (simp add: GamepadInput_new_def pad_held_def sdl_pad_def)

lemma manager_on_7_gamepad: "gamepad manager_on_7 = Some gamepad_on_7" "steamDeck manager_on_7 = None"
  by (simp_all add: manager_on_7_def gamepad_on_7_def DeviceManager_update_def
      DeviceManager_initialize_def DeviceManager_new_def Let_def pad_held_def sdl_pad_def
      sdl_idle_def)

text \<open>
  C6 as it is stated fails: the scan does not run in the update that finds the handle
  detached. With handle 7 bound, that controller detached and another one connected
  (which would open as handle 8 and has button A down), one \<open>GamepadInput::update\<close> leaves
  the object without a handle and the button query false; so does one update of the
  device manager when the event queue it drains is empty.
\<close>

theorem C6_hotplug_rescan_counterexample:
  "controller gamepad_on_7 = Some 7 \<and> \<not> game_controller_attached pad_swapped 7
   \<and> open_first_controller pad_swapped (joystick_indices pad_swapped) = Some (8, 0)
   \<and> game_controller_attached pad_swapped 8 \<and> game_controller_button pad_swapped 8 0 = 1
   \<and> controller (GamepadInput_update pad_swapped gamepad_on_7) = None
   \<and> \<not> GamepadInput_isButtonPressed (GamepadInput_update pad_swapped gamepad_on_7) 0
   \<and> gamepad manager_on_7 = Some gamepad_on_7
   \<and> \<not> DeviceManager_isGamepadAvailable (DeviceManager_update [] pad_swapped manager_on_7)
   \<and> \<not> DeviceManager_isGamepadButtonPressed (DeviceManager_update [] pad_swapped manager_on_7) 0"
proof -
  have d: "\<not> game_controller_attached pad_swapped 7" by (simp add: pad_swapped_def)
  note u = GamepadInput_update_detached [OF gamepad_on_7_controller d]
  have 1: "controller (GamepadInput_update pad_swapped gamepad_on_7) = None"
    unfolding u by simp
  have 2: "\<not> GamepadInput_isButtonPressed (GamepadInput_update pad_swapped gamepad_on_7) 0"
    unfolding u by (simp add: GamepadInput_isButtonPressed_def GamepadInput_isAvailable_def)
  have g: "gamepad (DeviceManager_update [] pad_swapped manager_on_7)
      = Some (GamepadInput_update pad_swapped gamepad_on_7)"
    by (simp add: DeviceManager_update_gamepad manager_on_7_gamepad)
  have s: "steamDeck (DeviceManager_update [] pad_swapped manager_on_7) = None"
    by (simp add: DeviceManager_update_def Let_def manager_on_7_gamepad)
  have 3: "\<not> DeviceManager_isGamepadAvailable (DeviceManager_update [] pad_swapped manager_on_7)"
    by (simp add: DeviceManager_isGamepadAvailable_def g GamepadInput_isAvailable_def 1)
  have 4: "\<not> DeviceManager_isGamepadButtonPressed (DeviceManager_update [] pad_swapped manager_on_7) 0"
    using 3 by (simp add: DeviceManager_isGamepadButtonPressed_def
        DeviceManager_isSteamDeckAvailable_def s)
  have 5: "game_controller_attached pad_swapped 8" "game_controller_button pad_swapped 8 0 = 1"
    by (simp_all add: pad_swapped_def)
  show ?thesis
    using gamepad_on_7_controller d pad_swapped_scan 5 1 2 manager_on_7_gamepad(1) 3 4 by simp
qed

lemma gamepad_on_7_button_A: "currentButtonStates gamepad_on_7 0"
  unfolding gamepad_on_7_def
  using GamepadInput_update_rescan [of GamepadInput_new pad_held 7 0] pad_held_scan
  by (simp add: GamepadInput_new_def pad_held_def sdl_pad_def SDL_CONTROLLER_BUTTON_MAX_def)

theorem C6_hotplug_rescan_witness:
  "controller gamepad_on_7 = Some 7 \<and> \<not> game_controller_attached pad_swapped 7
   \<and> currentButtonStates gamepad_on_7 0
   \<and> controller (GamepadInput_update pad_swapped gamepad_on_7) = None
   \<and> GamepadInput_update_closes pad_swapped gamepad_on_7 = [7]
   \<and> \<not> GamepadInput_isButtonPressed (GamepadInput_update pad_swapped gamepad_on_7) 0
   \<and> \<not> GamepadInput_isButtonJustPressed (GamepadInput_update pad_swapped gamepad_on_7) 0
   \<and> GamepadInput_getAxisValue (GamepadInput_update pad_swapped gamepad_on_7) 0 = 0
   \<and> open_first_controller pad_swapped (joystick_indices pad_swapped) = Some (8, 0)
   \<and> game_controller_attached pad_swapped 8
   \<and> game_controller_button pad_swapped 8 0 = 1
   \<and> controller (GamepadInput_update pad_swapped (GamepadInput_update pad_swapped gamepad_on_7))
       = Some 8
   \<and> GamepadInput_update_closes pad_swapped (GamepadInput_update pad_swapped gamepad_on_7) = []
   \<and> GamepadInput_isButtonPressed
        (GamepadInput_update pad_swapped (GamepadInput_update pad_swapped gamepad_on_7)) 0
   \<and> \<not> GamepadInput_isButtonJustPressed
        (GamepadInput_update pad_swapped (GamepadInput_update pad_swapped gamepad_on_7)) 0
   \<and> (0 :: nat) < SDL_CONTROLLER_BUTTON_MAX
   \<and> (0 :: nat) < SDL_CONTROLLER_AXIS_MAX
   \<and> GamepadInput_getAxisValue
        (GamepadInput_update pad_swapped (GamepadInput_update pad_swapped gamepad_on_7)) 0 = 0
   \<and> GamepadInput_isButtonPressed
        (GamepadInput_update pad_swapped
          (GamepadInput_update pad_swapped (GamepadInput_update pad_swapped gamepad_on_7))) 0
   \<and> \<not> GamepadInput_isButtonJustPressed
        (GamepadInput_update pad_released (GamepadInput_update pad_held gamepad_on_7)) 0
   \<and> GamepadInput_isButtonJustPressed
        (GamepadInput_update pad_held
          (GamepadInput_update pad_released (GamepadInput_update pad_held gamepad_on_7))) 0
   \<and> gamepad manager_on_7 = Some gamepad_on_7
   \<and> list_ex is_controller_device_event [SDL_CONTROLLERDEVICEREMOVED 0]
   \<and> gamepad (DeviceManager_update [SDL_CONTROLLERDEVICEREMOVED 0] pad_swapped manager_on_7)
       = Some (GamepadInput_update pad_swapped GamepadInput_new)
   \<and> poll_events_closes [SDL_CONTROLLERDEVICEREMOVED 0] manager_on_7 = [7]
   \<and> GamepadInput_isButtonJustPressed (GamepadInput_update pad_swapped GamepadInput_new) 0
   \<and> \<not> list_ex is_controller_device_event [SDL_KEYDOWN]
   \<and> gamepad (DeviceManager_update [SDL_KEYDOWN] pad_swapped manager_on_7)
       = Some (GamepadInput_update pad_swapped gamepad_on_7)
   \<and> m_gameController initialised_manager = Some 7
   \<and> m_gameControllerIndex initialised_manager = 0
   \<and> m_gameController
        (processEvent pad_swapped (SDL_CONTROLLERDEVICEREMOVED 0) initialised_manager) = Some 8
   \<and> processEvent_closes (SDL_CONTROLLERDEVICEREMOVED 0) initialised_manager = [7]
   \<and> m_gameController
        (processEvent sdl_idle (SDL_CONTROLLERDEVICEREMOVED 0) initialised_manager) = None
   \<and> m_gameController (processEvent pad_swapped (SDL_CONTROLLERDEVICEADDED 0)
        (processEvent sdl_idle (SDL_CONTROLLERDEVICEREMOVED 0) initialised_manager)) = Some 8"
proof -
  note t = C6_hotplug_rescan [where 'g = nat]
  note t1 = t [THEN conjunct1, rule_format]
  note t2 = t [THEN conjunct2, THEN conjunct1, rule_format]
  note t3 = t [THEN conjunct2, THEN conjunct2, THEN conjunct1, rule_format]
  note t4 = t [THEN conjunct2, THEN conjunct2, THEN conjunct2, THEN conjunct1, rule_format]
  note t5 = t [THEN conjunct2, THEN conjunct2, THEN conjunct2, THEN conjunct2, THEN conjunct1,
      rule_format]
  note t6 = t [THEN conjunct2, THEN conjunct2, THEN conjunct2, THEN conjunct2, THEN conjunct2,
      THEN conjunct1, rule_format]
  note t7 = t [THEN conjunct2, THEN conjunct2, THEN conjunct2, THEN conjunct2, THEN conjunct2,
      THEN conjunct2, rule_format]
  have r0: "m_gameController initialised_manager = Some 7
      \<and> 0 = m_gameControllerIndex initialised_manager"
    by (simp add: initialised_manager_fields)
  note r = t6 [OF r0]
  have r1: "m_gameController
        (processEvent pad_swapped (SDL_CONTROLLERDEVICEREMOVED 0) initialised_manager) = Some 8"
    unfolding r [THEN conjunct1] by (simp add: pad_swapped_def sdl_idle_def joystick_indices_def)
  have r2: "m_gameController
        (processEvent sdl_idle (SDL_CONTROLLERDEVICEREMOVED 0) initialised_manager) = None"
    unfolding r [THEN conjunct1] by (simp add: open_loop_no_joysticks)
  have r3: "m_gameController (processEvent pad_swapped (SDL_CONTROLLERDEVICEADDED 0)
        (processEvent sdl_idle (SDL_CONTROLLERDEVICEREMOVED 0) initialised_manager)) = Some 8"
    unfolding t7 [OF r2] by (simp add: pad_swapped_def)
  have r4: "processEvent_closes (SDL_CONTROLLERDEVICEREMOVED 0) initialised_manager = [7]"
    using r [THEN conjunct2] .
  have d: "\<not> game_controller_attached pad_swapped 7" by (simp add: pad_swapped_def)
  have h1: "controller gamepad_on_7 = Some 7 \<and> \<not> game_controller_attached pad_swapped 7"
    using gamepad_on_7_controller d by simp
  note a = t1 [OF h1]
  let ?g = "GamepadInput_update pad_swapped gamepad_on_7"
  have c: "controller ?g = None" using a by simp
  have cl: "GamepadInput_update_closes pad_swapped gamepad_on_7 = [7]" using a by simp
  have keep: "currentButtonStates ?g 0" using a gamepad_on_7_button_A by simp
  have a1: "\<not> GamepadInput_isButtonPressed ?g 0" using a by simp
  have a2: "\<not> GamepadInput_isButtonJustPressed ?g 0" using a by simp
  have a3: "GamepadInput_getAxisValue ?g 0 = 0" using a by simp
  have at: "game_controller_attached pad_swapped 8" by (simp add: pad_swapped_def)
  have bt: "game_controller_button pad_swapped 8 0 = 1" by (simp add: pad_swapped_def)
  have h2: "controller ?g = None
      \<and> open_first_controller pad_swapped (joystick_indices pad_swapped) = Some (8, 0)
      \<and> game_controller_attached pad_swapped 8"
    using c pad_swapped_scan at by simp
  note b = t2 [OF h2]
  let ?g2 = "GamepadInput_update pad_swapped ?g"
  have i: "(0 :: nat) < SDL_CONTROLLER_AXIS_MAX" by (simp add: SDL_CONTROLLER_AXIS_MAX_def)
  have j: "(0 :: nat) < SDL_CONTROLLER_BUTTON_MAX" by (simp add: SDL_CONTROLLER_BUTTON_MAX_def)
  have b1: "controller ?g2 = Some 8" using b by simp
  have b0: "GamepadInput_update_closes pad_swapped ?g = []" using b by simp
  have b2: "GamepadInput_isButtonPressed ?g2 0" using b j bt by simp
  have b4: "\<not> GamepadInput_isButtonJustPressed ?g2 0" using b keep by simp
  have "GamepadInput_getAxisValue ?g2 0
      = apply_deadzone GamepadInput_deadzone
          (real_of_int (sint (game_controller_axis pad_swapped 8 0)) * normalizeFactor)"
    using b i by simp
  then have b3: "GamepadInput_getAxisValue ?g2 0 = 0"
    by (simp add: pad_swapped_def sdl_idle_def apply_deadzone_def GamepadInput_deadzone_def)
  have h3: "controller ?g2 = Some 8 \<and> game_controller_attached pad_swapped 8"
    using b1 at by simp
  note b' = t3 [OF h3]
  have b5: "GamepadInput_isButtonPressed (GamepadInput_update pad_swapped ?g2) 0"
    using b' j bt by simp
  have at7: "game_controller_attached pad_held 7" "game_controller_attached pad_released 7"
    by (simp_all add: pad_held_def pad_released_def sdl_pad_def)
  have bh: "game_controller_button pad_held 7 0 = 1" "game_controller_button pad_released 7 0 = 0"
    by (simp_all add: pad_held_def pad_released_def sdl_pad_def sdl_idle_def)
  have h4: "controller gamepad_on_7 = Some 7 \<and> game_controller_attached pad_held 7"
    using gamepad_on_7_controller at7 by simp
  note s1 = t3 [OF h4]
  let ?s1 = "GamepadInput_update pad_held gamepad_on_7"
  have s1c: "controller ?s1 = Some 7" using s1 by simp
  have s1b: "currentButtonStates ?s1 0" using s1 j bh by simp
  have h5: "controller ?s1 = Some 7 \<and> game_controller_attached pad_released 7"
    using s1c at7 by simp
  note s2 = t3 [OF h5]
  let ?s2 = "GamepadInput_update pad_released ?s1"
  have s2c: "controller ?s2 = Some 7" using s2 by simp
  have s2b: "\<not> currentButtonStates ?s2 0" using s2 j bh by simp
  have s2j: "\<not> GamepadInput_isButtonJustPressed ?s2 0" using s2 bh by simp
  have h6: "controller ?s2 = Some 7 \<and> game_controller_attached pad_held 7"
    using s2c at7 by simp
  note s3 = t3 [OF h6]
  have s3j: "GamepadInput_isButtonJustPressed (GamepadInput_update pad_held ?s2) 0"
    using s3 s2b j bh by simp
  have e1: "list_ex is_controller_device_event [SDL_CONTROLLERDEVICEREMOVED 0]" by simp
  have e2: "\<not> list_ex is_controller_device_event [SDL_KEYDOWN]" by simp
  have h7: "gamepad manager_on_7 = Some gamepad_on_7
      \<and> list_ex is_controller_device_event [SDL_CONTROLLERDEVICEREMOVED 0]"
    using manager_on_7_gamepad(1) e1 by simp
  note m = t4 [OF h7]
  have m1: "gamepad (DeviceManager_update [SDL_CONTROLLERDEVICEREMOVED 0] pad_swapped manager_on_7)
       = Some (GamepadInput_update pad_swapped GamepadInput_new)"
    using m [THEN conjunct1, of pad_swapped] .
  have m3: "poll_events_closes [SDL_CONTROLLERDEVICEREMOVED 0] manager_on_7 = [7]"
    using m [THEN conjunct2] gamepad_on_7_controller
    by (simp add: GamepadInput_destroy_closes_def)
  have h8: "controller GamepadInput_new = None
      \<and> open_first_controller pad_swapped (joystick_indices pad_swapped) = Some (8, 0)
      \<and> game_controller_attached pad_swapped 8"
    using pad_swapped_scan at by (simp add: GamepadInput_new_def)
  note n = t2 [OF h8]
  have n1: "GamepadInput_isButtonJustPressed (GamepadInput_update pad_swapped GamepadInput_new) 0"
    using n j bt by (simp add: GamepadInput_new_def)
  have m2: "gamepad (DeviceManager_update [SDL_KEYDOWN] pad_swapped manager_on_7)
       = Some (GamepadInput_update pad_swapped gamepad_on_7)"
    using t5 [OF e2, of pad_swapped manager_on_7] manager_on_7_gamepad(1) by simp
  show ?thesis
    using h1 gamepad_on_7_button_A c cl a1 a2 a3 h2 bt b1 b0 b2 b4 j i b3 b5 s2j s3j
      manager_on_7_gamepad(1) e1 m1 m3 n1 e2 m2 r1 r4 r2 r3
    by (simp add: initialised_manager_fields)
qed

subsection \<open>The two designs on the axes\<close>

lemma gamepad_stick_update:
  "GamepadInput_getAxisValue (GamepadInput_update (pad_stick raw) GamepadInput_new) 0
     = apply_deadzone GamepadInput_deadzone (real_of_int (sint raw) * normalizeFactor)"
proof -
  have s: "open_first_controller (pad_stick raw) (joystick_indices (pad_stick raw)) = Some (7, 0)"
    by (simp add: pad_stick_def sdl_pad_def sdl_idle_def joystick_indices_def)
  have a: "game_controller_attached (pad_stick raw) 7" by (simp add: pad_stick_def sdl_pad_def)
  have c: "controller GamepadInput_new = None" by (simp add: GamepadInput_new_def)
  show ?thesis
    unfolding GamepadInput_update_rescan [OF c s a]
    by (simp add: GamepadInput_getAxisValue_def GamepadInput_isAvailable_def Let_def
        SDL_CONTROLLER_AXIS_MAX_def pad_stick_def sdl_pad_def)
qed

text \<open>
  C9. The two designs differ on the axes. The binding-table manager binds an axis command
  with the deadzone 0.25 when none is given and compares the raw normalised value with
  it; the gamepad device class shapes with the fixed deadzone 0.15. At the raw left-stick
  reading 6000 the binding-table manager stores 6000/32767 and makes no call (the value is
  inside its deadzone), while \<open>getAxisValue\<close> of the device class returns
  (6000/32768 - 0.15) / 0.85, which is neither 0 nor the value of the other design.
\<close>

theorem C9_designs_differ:
  "default_axis_deadzone = 25 / 100 \<and> GamepadInput_deadzone = 15 / 100
   \<and> (\<forall>axis command (m :: 'g InputManager).
         map_of (m_gamepadAxisCommands (bindGamepadAxisCommand_default axis command m)) axis
           = Some (command, 25 / 100))
   \<and> (\<exists>m'. update (pad_stick 6000) 1
               (bindGamepadAxisCommand_default Axis_LEFTX increment initialised_manager)
             = Inr (m', [])
           \<and> getGamepadAxisValue m' Axis_LEFTX = 6000 / 32767)
   \<and> GamepadInput_getAxisValue (GamepadInput_update (pad_stick 6000) GamepadInput_new) 0
       = (6000 / 32768 - 15 / 100) / (1 - 15 / 100)
   \<and> GamepadInput_getAxisValue (GamepadInput_update (pad_stick 6000) GamepadInput_new) 0 \<noteq> 0
   \<and> GamepadInput_getAxisValue (GamepadInput_update (pad_stick 6000) GamepadInput_new) 0
       \<noteq> 6000 / 32767"
proof -
  have s: "sint (6000 :: 16 word) = 6000" by simp
  have 1: "\<forall>axis command (m :: 'g InputManager).
         map_of (m_gamepadAxisCommands (bindGamepadAxisCommand_default axis command m)) axis
           = Some (command, 25 / 100)"
    by (simp add: bindGamepadAxisCommand_default_def bindGamepadAxisCommand_def
        default_axis_deadzone_def update_conv')
  from stick_manager_update [OF default_bound_fields [of increment], where raw = 6000 and dt = 1]
  have 2: "\<exists>m'. update (pad_stick 6000) 1
               (bindGamepadAxisCommand_default Axis_LEFTX increment initialised_manager)
             = Inr (m', [])
           \<and> getGamepadAxisValue m' Axis_LEFTX = 6000 / 32767"
    by (auto simp: s default_axis_deadzone_def)
  have 3: "GamepadInput_getAxisValue (GamepadInput_update (pad_stick 6000) GamepadInput_new) 0
       = (6000 / 32768 - 15 / 100) / (1 - 15 / 100)"
    unfolding gamepad_stick_update
    by (simp add: s apply_deadzone_def GamepadInput_deadzone_def normalizeFactor_def Let_def)
  have 4: "(6000 / 32768 - 15 / 100) / (1 - 15 / 100) \<noteq> (0 :: real)"
    "(6000 / 32768 - 15 / 100) / (1 - 15 / 100) \<noteq> (6000 / 32767 :: real)"
    by simp_all
  show ?thesis
    unfolding 3 using 1 2 4 by (simp add: default_axis_deadzone_def GamepadInput_deadzone_def)
qed

subsection \<open>Edge detection of the keyboard in both designs\<close>

lemma previous_keys_loop_other:
  "\<forall>j \<in> set is. key_from_scancode p j \<noteq> k \<Longrightarrow> previous_keys_loop p is st k = st k"
  by (induction "is" arbitrary: st) auto

lemma previous_keys_loop_at:
  assumes "i \<in> set is" "key_from_scancode p i = k" "k \<noteq> SDLK_UNKNOWN"
    "\<forall>j \<in> set is. key_from_scancode p j = k \<longrightarrow> j = i"
  shows "previous_keys_loop p is st k = Some (keyboard_state p i \<noteq> 0)"
  using assms(1,4)
proof (induction "is" arbitrary: st)
  case Nil
  then show ?case by simp
next
  case (Cons j "is")
  have rest: "\<forall>j \<in> set is. key_from_scancode p j = k \<longrightarrow> j = i"
    using Cons.prems(2) by simp
  show ?case
  proof (cases "j = i")
    case True
    let ?st = "st(k \<mapsto> keyboard_state p i \<noteq> 0)"
    have step: "previous_keys_loop p (j # is) st k = previous_keys_loop p is ?st k"
      using True assms(2,3) by simp
    show ?thesis
    proof (cases "i \<in> set is")
      case False
      then have "\<forall>j \<in> set is. key_from_scancode p j \<noteq> k" using rest by blast
      then have "previous_keys_loop p is ?st k = ?st k" by (rule previous_keys_loop_other)
      then show ?thesis unfolding step by simp
    next
      case True
      from Cons.IH [OF True rest] show ?thesis unfolding step .
    qed
  next
    case False
    then have n: "key_from_scancode p j \<noteq> k" using Cons.prems(2) by auto
    have m: "i \<in> set is" using False Cons.prems(1) by simp
    have "previous_keys_loop p (j # is) st k =
        (if key_from_scancode p j \<noteq> SDLK_UNKNOWN
         then previous_keys_loop p is (st(key_from_scancode p j \<mapsto> keyboard_state p j \<noteq> 0)) k
         else previous_keys_loop p is st k)"
      by simp
    then show ?thesis using Cons.IH [OF m rest] by simp
  qed
qed

lemma isKeyPressed_after_update:
  assumes k: "m_currentKeyboardState m = sdl_keys"
    and u: "update p dt m = Inr (m', calls)"
    and r: "scancode_from_key p key < SDL_NUM_SCANCODES"
      "key_from_scancode p (scancode_from_key p key) = key" "key \<noteq> SDLK_UNKNOWN"
      "\<forall>j < SDL_NUM_SCANCODES. key_from_scancode p j = key \<longrightarrow> j = scancode_from_key p key"
  shows "isKeyPressed p m' key = Inr False"
proof -
  from update_initialised [OF k, of p dt] u obtain a where
    m': "m' = (refreshed p m)\<lparr>m_activeInputMethod := a\<rparr>" by auto
  have i: "scancode_from_key p key \<in> set [0 ..< SDL_NUM_SCANCODES]" using r(1) by simp
  have o: "\<forall>j \<in> set [0 ..< SDL_NUM_SCANCODES].
      key_from_scancode p j = key \<longrightarrow> j = scancode_from_key p key"
    using r(4) by simp
  have l: "previous_keys_loop p [0 ..< SDL_NUM_SCANCODES] (m_previousKeyState m) key
      = Some (keyboard_state p (scancode_from_key p key) \<noteq> 0)"
    by (rule previous_keys_loop_at [OF i r(2) r(3) o])
  have f: "m_previousKeyState (refreshed p m)
      = previous_keys_loop p [0 ..< SDL_NUM_SCANCODES] (m_previousKeyState m)"
    by (simp add: refreshed_def updateGamepadState_def updateMouseState_def Let_def
        split: option.splits)
  have "m_previousKeyState m' key = Some (keyboard_state p (scancode_from_key p key) \<noteq> 0)"
    unfolding m' using l f by simp
  moreover have "m_currentKeyboardState m' = sdl_keys" unfolding m' using k by simp
  ultimately show ?thesis
    by (simp add: isKeyPressed_def deref_keys_def find_or_false_def Let_def)
qed

text \<open>
  C1. The claim: an identifier that is down on the first frame it is observed is reported
  as just pressed on that frame. The keyboard of the source does not do so, in either
  design. On the first update of a fresh \<open>KeyboardInput\<close>, with scancode 4 down in SDL's
  key array, the key is reported as held (\<open>isKeyPressed\<close>) and not as just pressed
  (\<open>isKeyJustPressed\<close>), because \<open>update\<close> fills the previous array from the array of the
  same frame. On the first update of the initialised binding-table manager, with the key
  \<open>a\<close> down, \<open>isKeyDown\<close> is true and \<open>isKeyPressed\<close> is false, because
  \<open>updateKeyboardState\<close> stores as previous state what the keyboard pointer shows in the
  same frame.
\<close>

theorem C1_keyboard_first_frame_not_just_pressed:
  "KeyboardInput_isKeyPressed all_held (KeyboardInput_update all_held KeyboardInput_new) 4
   \<and> \<not> KeyboardInput_isKeyJustPressed all_held (KeyboardInput_update all_held KeyboardInput_new) 4
   \<and> (\<exists>m' calls. update all_held 1 initialised_manager = Inr (m', calls)
         \<and> isKeyDown all_held m' 97 = Inr True
         \<and> isKeyPressed all_held m' 97 = Inr False)"
proof -
  have 1: "KeyboardInput_isKeyPressed all_held (KeyboardInput_update all_held KeyboardInput_new) 4"
    by (simp add: KeyboardInput_isKeyPressed_def KeyboardInput_isAvailable_def
        KeyboardInput_update_def SDL_GetKeyboardState_def all_held_def Let_def)
  have 2: "\<not> KeyboardInput_isKeyJustPressed all_held
      (KeyboardInput_update all_held KeyboardInput_new) 4"
    by (rule KeyboardInput_never_just_pressed) (simp add: SDL_NUM_SCANCODES_def)
  have k: "m_currentKeyboardState initialised_manager = sdl_keys"
    by (rule initialised_manager_fields)
  from update_initialised [OF k, of all_held 1] obtain m' calls where
    u: "update all_held 1 initialised_manager = Inr (m', calls)" by blast
  have p: "isKeyPressed all_held m' 97 = Inr False"
  proof (rule isKeyPressed_after_update [OF k u])
    show "scancode_from_key all_held 97 < SDL_NUM_SCANCODES"
      by (simp add: all_held_def SDL_NUM_SCANCODES_def)
    show "key_from_scancode all_held (scancode_from_key all_held 97) = 97"
      by (simp add: all_held_def)
    show "(97 :: SDL_Keycode) \<noteq> SDLK_UNKNOWN" by (simp add: SDLK_UNKNOWN_def)
    show "\<forall>j < SDL_NUM_SCANCODES. key_from_scancode all_held j = 97 \<longrightarrow>
        j = scancode_from_key all_held 97"
      by (auto simp: all_held_def split: if_splits)
  qed
  have "m_currentKeyboardState m' = sdl_keys" using update_pointer [OF u] k by simp
  then have d: "isKeyDown all_held m' 97 = Inr True"
    by (simp add: isKeyDown_set all_held_def)
  show ?thesis using 1 2 u p d by blast
qed

subsection \<open>Dispatch of the digital bindings against the platform\<close>














end
